theory Spec2Isabelle
  imports Complex_Main "HOL-Library.AList"
begin

section \<open>Exceptions and results\<close>

text \<open>
  The services raise and catch Python exceptions. A call either returns a value or
  raises; every \<^verbatim>\<open>raise\<close> of the source is a \<open>Raise\<close> of the model. Functions keep
  their Python names, without the leading underscore of the private ones; the constructor
  of a class \<open>C\<close> is \<open>C_init\<close>. Logging is left out.
\<close>

datatype ('e, 'a) result = Raise 'e | Return 'a

text \<open>
  The exception classes of \<^verbatim>\<open>error_handler.py\<close> (auth and order-processing), with the
  built-in root \<^verbatim>\<open>Exception\<close> and three built-in classes outside the \<^verbatim>\<open>ServiceError\<close>
  family.
\<close>

datatype exc_class =
    Exception
  | ServiceError
  | DynamoDBError
  | MongoDBError
  | AuthenticationError
  | AuthorizationError
  | ValidationError
  | NotFoundError
  | ConflictError
  | RateLimitError
  | BusinessLogicError
  | ExternalServiceError
  | PaymentError
  | InventoryError
  | RuntimeError
  | AttributeError
  | KeyError

text \<open>
  The method resolution order of a class, as far as these classes go: the class itself,
  then its bases among them.
\<close>

fun mro :: "exc_class \<Rightarrow> exc_class list" where
  "mro Exception = [Exception]"
| "mro ServiceError = [ServiceError, Exception]"
| "mro RuntimeError = [RuntimeError, Exception]"
| "mro AttributeError = [AttributeError, Exception]"
| "mro KeyError = [KeyError, Exception]"
| "mro c = [c, ServiceError, Exception]"

datatype detail = Str string | Num int | StrList "string list" | NoneValue

text \<open>
  An exception instance: its class and the attributes \<^verbatim>\<open>ServiceError.__init__\<close> sets
  (\<^verbatim>\<open>message\<close>, \<^verbatim>\<open>code\<close>, \<^verbatim>\<open>status_code\<close>, \<^verbatim>\<open>details\<close>).
\<close>

record exc =
  cls :: exc_class
  message :: string
  code :: string
  status_code :: int
  details :: "(string \<times> detail) list"

definition isinstance :: "exc \<Rightarrow> exc_class \<Rightarrow> bool" where
  "isinstance e c = (c \<in> set (mro (cls e)))"

definition ServiceError_init :: "string \<Rightarrow> string \<Rightarrow> int \<Rightarrow> (string \<times> detail) list \<Rightarrow> exc" where
  "ServiceError_init m c s d =
     \<lparr>cls = ServiceError, message = m, code = c, status_code = s, details = d\<rparr>"

definition DynamoDBError_init :: "string \<Rightarrow> (string \<times> detail) list \<Rightarrow> exc" where
  "DynamoDBError_init m d = (ServiceError_init m ''DYNAMODB_ERROR'' 503 d)\<lparr>cls := DynamoDBError\<rparr>"

definition MongoDBError_init :: "string \<Rightarrow> (string \<times> detail) list \<Rightarrow> exc" where
  "MongoDBError_init m d = (ServiceError_init m ''MONGODB_ERROR'' 503 d)\<lparr>cls := MongoDBError\<rparr>"

definition ValidationError_init :: "string \<Rightarrow> (string \<times> detail) list \<Rightarrow> exc" where
  "ValidationError_init m d = (ServiceError_init m ''VALIDATION_ERROR'' 400 d)\<lparr>cls := ValidationError\<rparr>"

definition NotFoundError_init :: "string \<Rightarrow> (string \<times> detail) list \<Rightarrow> exc" where
  "NotFoundError_init m d = (ServiceError_init m ''NOT_FOUND'' 404 d)\<lparr>cls := NotFoundError\<rparr>"

definition ConflictError_init :: "string \<Rightarrow> (string \<times> detail) list \<Rightarrow> exc" where
  "ConflictError_init m d = (ServiceError_init m ''CONFLICT'' 409 d)\<lparr>cls := ConflictError\<rparr>"

definition RateLimitError_init :: "string \<Rightarrow> (string \<times> detail) list \<Rightarrow> exc" where
  "RateLimitError_init m d = (ServiceError_init m ''RATE_LIMIT_EXCEEDED'' 429 d)\<lparr>cls := RateLimitError\<rparr>"

text \<open>A built-in exception carries only its class and its text.\<close>

definition builtin_exception :: "exc_class \<Rightarrow> string \<Rightarrow> exc" where
  "builtin_exception c m = \<lparr>cls = c, message = m, code = [], status_code = 0, details = []\<rparr>"

definition quoted :: "string \<Rightarrow> string" where
  "quoted s = CHR 0x27 # s @ [CHR 0x27]"

text \<open>What \<^verbatim>\<open>d[k]\<close> raises when the dictionary \<open>d\<close> has no key \<open>k\<close>.\<close>

definition key_error :: "string \<Rightarrow> exc" where
  "key_error k = builtin_exception KeyError (quoted k)"

section \<open>The world an operation runs in\<close>

text \<open>
  The wall clock read by \<^verbatim>\<open>datetime.utcnow()\<close>, in seconds. An operation is a function of
  the world: it returns or raises, and leaves a world behind (time has passed, the
  dependency has been called). Whatever else the operation touches lives in the
  record's extension.
\<close>

record world =
  utcnow :: rat

type_synonym ('e, 'a, 'z) operation = "'z world_scheme \<Rightarrow> ('e, 'a) result \<times> 'z world_scheme"

section \<open>CircuitBreaker (error_handler.py)\<close>

datatype breaker_state = CLOSED | OPEN | HALF_OPEN

record CircuitBreaker =
  failure_threshold :: int
  recovery_timeout :: int
  expected_exception :: exc_class
  failure_count :: int
  last_failure_time :: "rat option"
  state :: breaker_state

definition CircuitBreaker_init :: "int \<Rightarrow> int \<Rightarrow> exc_class \<Rightarrow> CircuitBreaker" where
  "CircuitBreaker_init threshold timeout expected =
     \<lparr>failure_threshold = threshold, recovery_timeout = timeout,
      expected_exception = expected,
      failure_count = 0, last_failure_time = None, state = CLOSED\<rparr>"

text \<open>
  \<^verbatim>\<open>_should_attempt_reset\<close>, \<^verbatim>\<open>_on_success\<close>, \<^verbatim>\<open>_on_failure\<close> (the leading underscore of
  the Python names is dropped). \<open>now\<close> is the value of \<^verbatim>\<open>datetime.utcnow()\<close> at the
  moment of the call; \<^verbatim>\<open>total_seconds()\<close> of the difference is \<open>now - t\<close>.
\<close>

definition should_attempt_reset :: "CircuitBreaker \<Rightarrow> rat \<Rightarrow> bool" where
  "should_attempt_reset b now =
     (case last_failure_time b of
        None \<Rightarrow> True
      | Some t \<Rightarrow> now - t \<ge> of_int (recovery_timeout b))"

definition on_success :: "CircuitBreaker \<Rightarrow> CircuitBreaker" where
  "on_success b = b\<lparr>failure_count := 0, state := CLOSED\<rparr>"

definition on_failure :: "CircuitBreaker \<Rightarrow> rat \<Rightarrow> CircuitBreaker" where
  "on_failure b now =
     (let b1 = b\<lparr>failure_count := failure_count b + 1, last_failure_time := Some now\<rparr>
      in if failure_count b1 \<ge> failure_threshold b1 then b1\<lparr>state := OPEN\<rparr> else b1)"

definition circuit_open_error :: "CircuitBreaker \<Rightarrow> exc" where
  "circuit_open_error b =
     ServiceError_init ''Service temporarily unavailable'' ''CIRCUIT_BREAKER_OPEN'' 503
       [(''retry_after'', Num (recovery_timeout b))]"

text \<open>
  \<^verbatim>\<open>CircuitBreaker.call\<close> in two parts. \<open>admit\<close> is the \<^verbatim>\<open>if self.state == 'OPEN'\<close> block:
  it rejects the call, or lets it through (moving an open breaker to \<open>HALF_OPEN\<close>).
  \<open>guarded\<close> is the \<^verbatim>\<open>try\<close> block: the operation runs, and its outcome updates the breaker.
  Calls are taken one at a time: what other tasks do to the breaker while the operation
  is awaited is outside the model.
\<close>

definition admit :: "CircuitBreaker \<Rightarrow> rat \<Rightarrow> (exc, CircuitBreaker) result" where
  "admit b now =
     (if state b = OPEN then
        (if should_attempt_reset b now then Return (b\<lparr>state := HALF_OPEN\<rparr>)
         else Raise (circuit_open_error b))
      else Return b)"

definition guarded ::
  "CircuitBreaker \<Rightarrow> (exc, 'a, 'z) operation \<Rightarrow> 'z world_scheme
     \<Rightarrow> (exc, 'a) result \<times> CircuitBreaker \<times> 'z world_scheme" where
  "guarded b func w =
     (case func w of
        (Return r, w') \<Rightarrow> (Return r, on_success b, w')
      | (Raise e, w') \<Rightarrow>
          if isinstance e (expected_exception b)
          then (Raise e, on_failure b (utcnow w'), w')
          else (Raise e, b, w'))"

definition call ::
  "CircuitBreaker \<Rightarrow> (exc, 'a, 'z) operation \<Rightarrow> 'z world_scheme
     \<Rightarrow> (exc, 'a) result \<times> CircuitBreaker \<times> 'z world_scheme" where
  "call b func w =
     (case admit b (utcnow w) of
        Raise e \<Rightarrow> (Raise e, b, w)
      | Return b1 \<Rightarrow> guarded b1 func w)"

text \<open>The breaker after a sequence of calls, each with its operation and the world it starts in.\<close>

fun calls ::
  "CircuitBreaker \<Rightarrow> ((exc, 'a, 'z) operation \<times> 'z world_scheme) list \<Rightarrow> CircuitBreaker" where
  "calls b [] = b"
| "calls b ((func, w) # rest) = calls (fst (snd (call b func w))) rest"

section \<open>RetryConfig and the database managers (error_handler.py)\<close>

record RetryConfig =
  max_attempts :: int
  base_delay :: rat
  max_delay :: rat
  exponential_base :: rat
  jitter :: bool

definition RetryConfig_init :: RetryConfig where
  "RetryConfig_init =
     \<lparr>max_attempts = 3, base_delay = 1, max_delay = 60, exponential_base = 2, jitter = True\<rparr>"

text \<open>
  What an operation handed to a manager can raise: the botocore and pymongo exceptions
  the managers name in their \<^verbatim>\<open>except\<close> clauses, each with its \<^verbatim>\<open>str(e)\<close> and the
  attributes the handlers read, and any other exception with its \<^verbatim>\<open>str(e)\<close>. Exceptions outside the \<^verbatim>\<open>Exception\<close>
  hierarchy (task cancellation, interpreter exit) are not modelled.
\<close>

datatype 'a doc_field = NoDetails | Missing | Field 'a
  \<comment> \<open>\<^verbatim>\<open>e.details\<close> is \<^verbatim>\<open>None\<close>; the key is absent from \<^verbatim>\<open>e.details\<close>; the key's value\<close>

datatype error_entry = ErrorEntry "string option" "string option"
  \<comment> \<open>\<^verbatim>\<open>response['Error']\<close>: its \<^verbatim>\<open>'Code'\<close> and its \<^verbatim>\<open>'Message'\<close>, each present or not\<close>

datatype raw_error =
    ClientError string "error_entry option" "string option"
      \<comment> \<open>\<^verbatim>\<open>str(e)\<close>; \<^verbatim>\<open>response['Error']\<close>, present or not; the request id that
         \<^verbatim>\<open>response.get('ResponseMetadata', {}).get('RequestId')\<close> gives\<close>
  | BotoCoreError string
  | DuplicateKeyError string "string doc_field"
      \<comment> \<open>\<^verbatim>\<open>str(e)\<close>, \<^verbatim>\<open>str\<close> of \<^verbatim>\<open>details['keyValue']\<close>\<close>
  | WriteError string "int option" "string list doc_field"
      \<comment> \<open>\<^verbatim>\<open>str(e)\<close>, \<^verbatim>\<open>e.code\<close>, \<^verbatim>\<open>details['errorLabels']\<close>\<close>
  | OperationFailure string "int option"
  | ConnectionFailure string
  | ServerSelectionTimeoutError string
  | PyMongoError string
  | OtherException string

definition opt_num :: "int option \<Rightarrow> detail" where
  "opt_num c = (case c of None \<Rightarrow> NoneValue | Some n \<Rightarrow> Num n)"

definition opt_str :: "string option \<Rightarrow> detail" where
  "opt_str c = (case c of None \<Rightarrow> NoneValue | Some s \<Rightarrow> Str s)"

text \<open>\<^verbatim>\<open>str(e)\<close> of a raw exception.\<close>

fun str_of :: "raw_error \<Rightarrow> string" where
  "str_of (ClientError s en r) = s"
| "str_of (BotoCoreError s) = s"
| "str_of (DuplicateKeyError s d) = s"
| "str_of (WriteError s c d) = s"
| "str_of (OperationFailure s c) = s"
| "str_of (ConnectionFailure s) = s"
| "str_of (ServerSelectionTimeoutError s) = s"
| "str_of (PyMongoError s) = s"
| "str_of (OtherException s) = s"

subsection \<open>DynamoDBManager (auth)\<close>

record DynamoDBManager =
  retry_config :: RetryConfig
  circuit_breaker :: CircuitBreaker

definition DynamoDBManager_init :: "RetryConfig option \<Rightarrow> DynamoDBManager" where
  "DynamoDBManager_init rc =
     \<lparr>retry_config = (case rc of None \<Rightarrow> RetryConfig_init | Some c \<Rightarrow> c),
      circuit_breaker = CircuitBreaker_init 5 30 DynamoDBError\<rparr>"

text \<open>
  The \<^verbatim>\<open>except\<close> chain of \<^verbatim>\<open>DynamoDBManager.execute_with_retry._execute\<close>. The handler of
  \<^verbatim>\<open>ClientError\<close> first reads \<^verbatim>\<open>e.response['Error']['Code']\<close>, then
  \<^verbatim>\<open>e.response['Error']['Message']\<close>; a key that is not there raises \<^verbatim>\<open>KeyError\<close> out of
  the handler.
\<close>

fun dynamodb_classify :: "raw_error \<Rightarrow> exc" where
  "dynamodb_classify (ClientError s None request_id) = key_error ''Error''"
| "dynamodb_classify (ClientError s (Some (ErrorEntry None m)) request_id) = key_error ''Code''"
| "dynamodb_classify (ClientError s (Some (ErrorEntry (Some c) None)) request_id) =
     key_error ''Message''"
| "dynamodb_classify
     (ClientError s (Some (ErrorEntry (Some error_code) (Some error_message))) request_id) =
     (if error_code = ''ResourceNotFoundException''
        then NotFoundError_init (''DynamoDB resource not found: '' @ error_message) []
      else if error_code = ''ConditionalCheckFailedException''
        then ConflictError_init (''Conditional check failed: '' @ error_message) []
      else if error_code = ''ProvisionedThroughputExceededException''
        then RateLimitError_init (''DynamoDB throughput exceeded: '' @ error_message) []
      else if error_code = ''ValidationException''
        then ValidationError_init (''DynamoDB validation error: '' @ error_message) []
      else DynamoDBError_init (''DynamoDB error ('' @ error_code @ ''): '' @ error_message)
             [(''error_code'', Str error_code), (''request_id'', opt_str request_id)])"
| "dynamodb_classify (BotoCoreError s) = DynamoDBError_init (''AWS SDK error: '' @ s) []"
| "dynamodb_classify e = DynamoDBError_init (''Unexpected DynamoDB error: '' @ str_of e) []"

definition dynamodb_execute :: "(raw_error, 'a, 'z) operation \<Rightarrow> (exc, 'a, 'z) operation" where
  "dynamodb_execute operation w =
     (case operation w of
        (Return r, w') \<Rightarrow> (Return r, w')
      | (Raise e, w') \<Rightarrow> (Raise (dynamodb_classify e), w'))"

text \<open>
  \<^verbatim>\<open>DynamoDBManager.execute_with_retry\<close>: the classified operation goes through the
  breaker once. \<^verbatim>\<open>self.retry_config\<close> is not read.
\<close>

definition dynamodb_execute_with_retry ::
  "DynamoDBManager \<Rightarrow> (raw_error, 'a, 'z) operation \<Rightarrow> 'z world_scheme
     \<Rightarrow> (exc, 'a) result \<times> DynamoDBManager \<times> 'z world_scheme" where
  "dynamodb_execute_with_retry self operation w =
     (case call (circuit_breaker self) (dynamodb_execute operation) w of
        (r, cb, w') \<Rightarrow> (r, self\<lparr>circuit_breaker := cb\<rparr>, w'))"

subsection \<open>MongoDBManager (order-processing)\<close>

record MongoDBManager =
  mongo_retry_config :: RetryConfig
  mongo_circuit_breaker :: CircuitBreaker

definition MongoDBManager_init :: "RetryConfig option \<Rightarrow> MongoDBManager" where
  "MongoDBManager_init rc =
     \<lparr>mongo_retry_config = (case rc of None \<Rightarrow> RetryConfig_init | Some c \<Rightarrow> c),
      mongo_circuit_breaker = CircuitBreaker_init 5 30 MongoDBError\<rparr>"

definition none_has_no_get :: exc where
  "none_has_no_get =
     builtin_exception AttributeError
       (quoted ''NoneType'' @ '' object has no attribute '' @ quoted ''get'')"

text \<open>
  The \<^verbatim>\<open>except\<close> chain of \<^verbatim>\<open>MongoDBManager.execute_with_retry._execute\<close>, first match
  first. In pymongo \<^verbatim>\<open>ServerSelectionTimeoutError\<close> is a \<^verbatim>\<open>ConnectionFailure\<close>, so the
  clause for \<^verbatim>\<open>ConnectionFailure\<close> takes it. A handler that reads \<^verbatim>\<open>e.details.get\<close>
  when \<^verbatim>\<open>e.details\<close> is \<^verbatim>\<open>None\<close> raises \<^verbatim>\<open>AttributeError\<close> itself.
\<close>

fun mongodb_classify :: "raw_error \<Rightarrow> exc" where
  "mongodb_classify (DuplicateKeyError s d) =
     (case d of
        NoDetails \<Rightarrow> none_has_no_get
      | Missing \<Rightarrow> ConflictError_init (''Duplicate key error: '' @ s) [(''duplicate_key'', Str ''{}'')]
      | Field kv \<Rightarrow> ConflictError_init (''Duplicate key error: '' @ s) [(''duplicate_key'', Str kv)])"
| "mongodb_classify (WriteError s c d) =
     (case d of
        NoDetails \<Rightarrow> none_has_no_get
      | Missing \<Rightarrow> MongoDBError_init (''MongoDB write error: '' @ s)
                    [(''error_code'', opt_num c), (''error_labels'', StrList [])]
      | Field ls \<Rightarrow> MongoDBError_init (''MongoDB write error: '' @ s)
                    [(''error_code'', opt_num c), (''error_labels'', StrList ls)])"
| "mongodb_classify (OperationFailure s c) =
     (if c = Some 11000 then ConflictError_init (''Duplicate key error: '' @ s) []
      else MongoDBError_init (''MongoDB operation failed: '' @ s) [(''error_code'', opt_num c)])"
| "mongodb_classify (ConnectionFailure s) = MongoDBError_init (''Database connection failed: '' @ s) []"
| "mongodb_classify (ServerSelectionTimeoutError s) =
     MongoDBError_init (''Database connection failed: '' @ s) []"
| "mongodb_classify (PyMongoError s) = MongoDBError_init (''Database error: '' @ s) []"
| "mongodb_classify e = MongoDBError_init (''Unexpected database error: '' @ str_of e) []"

definition mongodb_execute :: "(raw_error, 'a, 'z) operation \<Rightarrow> (exc, 'a, 'z) operation" where
  "mongodb_execute operation w =
     (case operation w of
        (Return r, w') \<Rightarrow> (Return r, w')
      | (Raise e, w') \<Rightarrow> (Raise (mongodb_classify e), w'))"

definition mongodb_execute_with_retry ::
  "MongoDBManager \<Rightarrow> (raw_error, 'a, 'z) operation \<Rightarrow> 'z world_scheme
     \<Rightarrow> (exc, 'a) result \<times> MongoDBManager \<times> 'z world_scheme" where
  "mongodb_execute_with_retry self operation w =
     (case call (mongo_circuit_breaker self) (mongodb_execute operation) w of
        (r, cb, w') \<Rightarrow> (r, self\<lparr>mongo_circuit_breaker := cb\<rparr>, w'))"

section \<open>Effects\<close>

text \<open>
  The retry loops and the resolver call out of the process. Each function below returns,
  next to its result, the trace of the external calls it made, in order: an HTTP request,
  a sleep of so many seconds, a Redis \<^verbatim>\<open>setex\<close>, an SSM \<^verbatim>\<open>get_parameters_by_path\<close>.
\<close>

datatype event = HttpRequest | Sleep rat | CacheSetex | GetParametersByPath

definition sleeps :: "event list \<Rightarrow> rat list" where
  "sleeps tr = concat (map (\<lambda>ev. case ev of Sleep d \<Rightarrow> [d] | _ \<Rightarrow> []) tr)"

definition count_event :: "event \<Rightarrow> event list \<Rightarrow> nat" where
  "count_event ev tr = length (filter (\<lambda>x. x = ev) tr)"

section \<open>HTTPClientService._make_request (order-processing/services/http_client.py)\<close>

record http_response =
  resp_status_code :: int  \<comment> \<open>\<^verbatim>\<open>response.status_code\<close>\<close>
  resp_body :: string

text \<open>
  What \<^verbatim>\<open>self.client.request\<close> can raise, by the \<^verbatim>\<open>except\<close> clause that takes it:
  the three httpx classes of the first clause, and anything else. \<open>TypeError\<close> is what
  Python raises for \<^verbatim>\<open>raise None\<close>.
\<close>

datatype http_error =
    TimeoutException string
  | ConnectError string
  | HTTPStatusError string http_response
  | OtherError string
  | TypeError string

type_synonym 'w http_operation = "'w \<Rightarrow> (http_error, http_response) result \<times> 'w"

fun digit_char :: "nat \<Rightarrow> char" where
  "digit_char n = (''0123456789'' ! (n mod 10))"

fun str_nat :: "nat \<Rightarrow> string" where
  "str_nat n = (if n < 10 then [digit_char n] else str_nat (n div 10) @ [digit_char (n mod 10)])"

definition str_int :: "int \<Rightarrow> string" where
  "str_int i = (if i < 0 then CHR ''-'' # str_nat (nat (- i)) else str_nat (nat i))"

text \<open>
  The body of the \<^verbatim>\<open>try\<close> and the choice of the \<^verbatim>\<open>except\<close> clause, for one attempt:
  \<open>Caught e\<close> when the first clause takes \<open>e\<close> (the loop goes on), \<open>Done r\<close> when the
  attempt ends the call (\<^verbatim>\<open>return response\<close>, or the re-raise of the second clause).
\<close>

datatype attempt_outcome = Caught http_error | Done "(http_error, http_response) result"

definition try_request :: "int \<Rightarrow> nat \<Rightarrow> (http_error, http_response) result \<Rightarrow> attempt_outcome" where
  "try_request retries attempt outcome =
     (case outcome of
        Return response \<Rightarrow>
          if resp_status_code response \<in> {502, 503, 504} \<and> int attempt < retries
          then Caught (HTTPStatusError (''HTTP '' @ str_int (resp_status_code response)) response)
          else Done (Return response)
      | Raise (TimeoutException s) \<Rightarrow> Caught (TimeoutException s)
      | Raise (ConnectError s) \<Rightarrow> Caught (ConnectError s)
      | Raise (HTTPStatusError s r) \<Rightarrow> Caught (HTTPStatusError s r)
      | Raise e \<Rightarrow> Done (Raise e))"

text \<open>
  \<^verbatim>\<open>base_wait = 2 ** attempt\<close>, \<^verbatim>\<open>wait_time = base_wait + (base_wait * jitter)\<close>, over
  the rationals. \<open>uniform attempt\<close> is the value \<^verbatim>\<open>random.uniform(0.1, 0.5)\<close> draws at
  that attempt.
\<close>

definition wait_time :: "nat \<Rightarrow> rat \<Rightarrow> rat" where
  "wait_time attempt jit = (let base_wait = 2 ^ attempt in base_wait + (base_wait * jit))"

text \<open>
  The \<^verbatim>\<open>for attempt in range(self.retries + 1)\<close> loop, and the \<^verbatim>\<open>raise last_exception\<close>
  that follows it. \<open>request\<close> stands for \<^verbatim>\<open>self.client.request(method, url, **kwargs)\<close>,
  the correlation header already set.
\<close>

fun request_attempts ::
  "int \<Rightarrow> 'w http_operation \<Rightarrow> (nat \<Rightarrow> rat) \<Rightarrow> nat list \<Rightarrow> http_error option \<Rightarrow> 'w
     \<Rightarrow> (http_error, http_response) result \<times> 'w \<times> event list" where
  "request_attempts retries request uniform [] last_exception w =
     (case last_exception of
        None \<Rightarrow> (Raise (TypeError ''exceptions must derive from BaseException''), w, [])
      | Some e \<Rightarrow> (Raise e, w, []))"
| "request_attempts retries request uniform (attempt # rest) last_exception w =
     (case request w of (outcome, w1) \<Rightarrow>
        (case try_request retries attempt outcome of
           Done r \<Rightarrow> (r, w1, [HttpRequest])
         | Caught e \<Rightarrow>
             (case request_attempts retries request uniform rest (Some e) w1 of (r, w2, tr) \<Rightarrow>
                (r, w2,
                 (if int attempt < retries
                  then [HttpRequest, Sleep (wait_time attempt (uniform attempt))]
                  else [HttpRequest]) @ tr))))"

definition py_range :: "int \<Rightarrow> nat list" where
  "py_range n = [0..<nat n]"

definition make_request ::
  "int \<Rightarrow> 'w http_operation \<Rightarrow> (nat \<Rightarrow> rat) \<Rightarrow> 'w
     \<Rightarrow> (http_error, http_response) result \<times> 'w \<times> event list" where
  "make_request retries request uniform w =
     request_attempts retries request uniform (py_range (retries + 1)) None w"

section \<open>CacheManager.set_with_retry (product-catalog/error_handler.py)\<close>

text \<open>
  \<open>setex\<close> stands for \<^verbatim>\<open>self.redis_client.setex(key, ttl, json.dumps(value))\<close>: it raises a
  \<^verbatim>\<open>RedisError\<close>, which the loop catches, or something else, which it lets through.
\<close>

datatype cache_error = RedisError string | OtherCacheError string


definition CacheManager_retry_config :: "RetryConfig option \<Rightarrow> RetryConfig" where
  "CacheManager_retry_config rc =
     (case rc of None \<Rightarrow> RetryConfig_init\<lparr>max_attempts := 2, base_delay := 1 / 10\<rparr> | Some c \<Rightarrow> c)"



section \<open>ServiceDiscovery (order-processing/services/service_discovery.py)\<close>

text \<open>
  The process around the resolver: the event loop's clock (\<^verbatim>\<open>loop.time()\<close>, seconds)
  and \<^verbatim>\<open>os.environ\<close>.
\<close>

record runtime =
  loop_time :: rat
  environ :: "string \<Rightarrow> string option"

type_synonym properties = "(string \<times> string) list"

record ServiceDiscovery =
  ssm_prefix :: string
  service_cache :: "(string \<times> properties) list"
  cache_ttl :: rat
  last_cache_update :: rat
  ssm_available :: bool

definition ServiceDiscovery_init :: "string \<Rightarrow> string \<Rightarrow> bool \<Rightarrow> ServiceDiscovery" where
  "ServiceDiscovery_init project_name environment available =
     \<lparr>ssm_prefix = ''/'' @ project_name @ ''/'' @ environment @ ''/services'',
      service_cache = [], cache_ttl = 300, last_cache_update = 0,
      ssm_available = available\<rparr>"

text \<open>
  \<^verbatim>\<open>get_parameters_by_path\<close> answers with the list of \<^verbatim>\<open>(Name, Value)\<close> pairs or raises; an
  answer the parsing loop cannot read (a missing key) raises inside the same \<^verbatim>\<open>try\<close> and
  is a \<open>Raise\<close> here as well.
\<close>

datatype ssm_error = SsmClientError string | SsmOtherError string

type_synonym 'z ssm_operation =
  "'z runtime_scheme \<Rightarrow> (ssm_error, (string \<times> string) list) result \<times> 'z runtime_scheme"

text \<open>\<^verbatim>\<open>str.replace(old, '')\<close>, \<^verbatim>\<open>str.strip(c)\<close>, \<^verbatim>\<open>str.split(sep)\<close>, for one-character \<open>c\<close>, \<open>sep\<close>.\<close>

function str_remove :: "string \<Rightarrow> string \<Rightarrow> string" where
  "str_remove old s =
     (if old = [] \<or> s = [] then s
      else if take (length old) s = old then str_remove old (drop (length old) s)
      else hd s # str_remove old (tl s))"
  by pat_completeness auto
termination
  by (relation "measure (\<lambda>(old, s). length s)") auto

definition str_strip :: "char \<Rightarrow> string \<Rightarrow> string" where
  "str_strip c s = rev (dropWhile (\<lambda>x. x = c) (rev (dropWhile (\<lambda>x. x = c) s)))"

fun str_split :: "char \<Rightarrow> string \<Rightarrow> string list" where
  "str_split sep [] = [[]]"
| "str_split sep (c # cs) =
     (if c = sep then [] # str_split sep cs
      else (case str_split sep cs of [] \<Rightarrow> [[c]] | p # ps \<Rightarrow> (c # p) # ps))"

text \<open>One round of the parsing loop of \<^verbatim>\<open>_refresh_service_cache\<close>.\<close>

definition add_parameter ::
  "string \<Rightarrow> (string \<times> properties) list \<Rightarrow> string \<times> string \<Rightarrow> (string \<times> properties) list" where
  "add_parameter prefix services param =
     (let param_path = str_strip CHR ''/'' (str_remove prefix (fst param));
          path_parts = str_split CHR ''/'' param_path
      in if length path_parts \<ge> 2 then
           (let service_name = path_parts ! 0;
                property_name = path_parts ! 1;
                info = (case map_of services service_name of None \<Rightarrow> [] | Some i \<Rightarrow> i)
            in AList.update service_name (AList.update property_name (snd param) info) services)
         else services)"

definition refresh_service_cache ::
  "ServiceDiscovery \<Rightarrow> 'z ssm_operation \<Rightarrow> 'z runtime_scheme
     \<Rightarrow> ServiceDiscovery \<times> 'z runtime_scheme \<times> event list" where
  "refresh_service_cache self get_parameters_by_path w =
     (if \<not> ssm_available self then (self, w, [])
      else
        (case get_parameters_by_path w of
           (Return parameters, w1) \<Rightarrow>
             (self\<lparr>service_cache := foldl (add_parameter (ssm_prefix self)) [] parameters,
                   last_cache_update := loop_time w1\<rparr>,
              w1, [GetParametersByPath])
         | (Raise e, w1) \<Rightarrow> (self, w1, [GetParametersByPath])))"

definition is_cache_valid :: "ServiceDiscovery \<Rightarrow> 'z runtime_scheme \<Rightarrow> bool" where
  "is_cache_valid self w =
     (if service_cache self = [] then False
      else loop_time w - last_cache_update self < cache_ttl self)"

text \<open>
  \<^verbatim>\<open>str.upper()\<close> on ASCII letters (a service name outside ASCII is not modelled), and
  \<^verbatim>\<open>replace('-', '_')\<close>.
\<close>

definition str_upper :: "string \<Rightarrow> string" where
  "str_upper s =
     map (\<lambda>c. let n = (of_char c :: nat) in if 97 \<le> n \<and> n \<le> 122 then char_of (n - 32) else c) s"

definition env_var_map :: "(string \<times> string) list" where
  "env_var_map =
     [(''auth'', ''AUTH_SERVICE_URL''),
      (''product-catalog'', ''PRODUCT_SERVICE_URL''),
      (''order-processing'', ''ORDER_PROCESSING_SERVICE_URL'')]"

definition get_fallback_endpoint :: "'z runtime_scheme \<Rightarrow> string \<Rightarrow> string option" where
  "get_fallback_endpoint w service_name =
     (case map_of env_var_map service_name of
        Some env_var \<Rightarrow> environ w env_var
      | None \<Rightarrow>
          environ w
            (map (\<lambda>c. if c = CHR ''-'' then CHR ''_'' else c) (str_upper service_name)
               @ ''_SERVICE_URL''))"

text \<open>
  \<^verbatim>\<open>if service_name in self._service_cache: endpoint = ....get('full_url'); if endpoint:\<close>
  \<^enum> the endpoint when the service is cached with a non-empty \<^verbatim>\<open>full_url\<close>.
\<close>

definition cached_endpoint :: "(string \<times> properties) list \<Rightarrow> string \<Rightarrow> string option" where
  "cached_endpoint cache service_name =
     (case map_of cache service_name of
        None \<Rightarrow> None
      | Some info \<Rightarrow>
          (case map_of info ''full_url'' of
             None \<Rightarrow> None
           | Some endpoint \<Rightarrow> if endpoint \<noteq> [] then Some endpoint else None))"

text \<open>
  \<^verbatim>\<open>get_service_endpoint\<close>. Every statement of its \<^verbatim>\<open>try\<close> that can raise is inside
  \<^verbatim>\<open>_refresh_service_cache\<close>, which catches \<^verbatim>\<open>Exception\<close>; the outer \<^verbatim>\<open>except\<close> clause
  (return the fallback) is therefore not reached and the function always returns.
\<close>

definition get_service_endpoint ::
  "ServiceDiscovery \<Rightarrow> 'z ssm_operation \<Rightarrow> string \<Rightarrow> 'z runtime_scheme
     \<Rightarrow> string option \<times> ServiceDiscovery \<times> 'z runtime_scheme \<times> event list" where
  "get_service_endpoint self get_parameters_by_path service_name w =
     (case (if is_cache_valid self w then cached_endpoint (service_cache self) service_name
            else None) of
        Some endpoint \<Rightarrow> (Some endpoint, self, w, [])
      | None \<Rightarrow>
          (case refresh_service_cache self get_parameters_by_path w of (self1, w1, tr) \<Rightarrow>
             (case cached_endpoint (service_cache self1) service_name of
                Some endpoint \<Rightarrow> (Some endpoint, self1, w1, tr)
              | None \<Rightarrow>
                  (case get_fallback_endpoint w1 service_name of
                     Some endpoint \<Rightarrow>
                       if endpoint \<noteq> [] then (Some endpoint, self1, w1, tr)
                       else (None, self1, w1, tr)
                   | None \<Rightarrow> (None, self1, w1, tr)))))"

section \<open>Vocabulary of the properties\<close>

text \<open>An operation that, run in world \<open>w\<close>, raises an exception the breaker counts.\<close>

definition counted_failure :: "exc_class \<Rightarrow> (exc, 'a, 'z) operation \<Rightarrow> 'z world_scheme \<Rightarrow> bool" where
  "counted_failure expected func w =
     (case func w of (Raise e, w') \<Rightarrow> isinstance e expected | (Return r, w') \<Rightarrow> False)"

text \<open>The invariant of the data model: an open breaker has a failure time and a full count.\<close>

definition breaker_invariant :: "CircuitBreaker \<Rightarrow> bool" where
  "breaker_invariant b =
     (state b = OPEN \<longrightarrow> last_failure_time b \<noteq> None \<and> failure_threshold b \<le> failure_count b)"

text \<open>The same for every state but \<open>CLOSED\<close>: what the induction over the calls carries.\<close>

definition tripped_invariant :: "CircuitBreaker \<Rightarrow> bool" where
  "tripped_invariant b =
     (state b \<noteq> CLOSED \<longrightarrow> last_failure_time b \<noteq> None \<and> failure_threshold b \<le> failure_count b)"

text \<open>
  The raw failures \<^verbatim>\<open>DynamoDBManager\<close> maps to a kind of their own: a \<^verbatim>\<open>ClientError\<close> that
  carries its code and its message, with one of the four codes of the \<^verbatim>\<open>if\<close> chain.
\<close>

definition dynamodb_recognized :: "raw_error \<Rightarrow> bool" where
  "dynamodb_recognized e =
     (case e of
        ClientError s (Some (ErrorEntry (Some error_code) (Some m))) r \<Rightarrow>
          error_code \<in> {''ResourceNotFoundException'', ''ConditionalCheckFailedException'',
                        ''ProvisionedThroughputExceededException'', ''ValidationException''}
      | _ \<Rightarrow> False)"

text \<open>
  The raw failures that fall through the specific rules of \<^verbatim>\<open>DynamoDBManager\<close>: a
  \<^verbatim>\<open>ClientError\<close> that carries its code and its message, with any other code; a
  \<^verbatim>\<open>BotoCoreError\<close>; any exception that is neither. A \<^verbatim>\<open>ClientError\<close> without its code or
  its message is not among them.
\<close>

definition dynamodb_unrecognized :: "raw_error \<Rightarrow> bool" where
  "dynamodb_unrecognized e =
     (case e of
        ClientError s (Some (ErrorEntry (Some error_code) (Some m))) r \<Rightarrow>
          error_code \<notin> {''ResourceNotFoundException'', ''ConditionalCheckFailedException'',
                        ''ProvisionedThroughputExceededException'', ''ValidationException''}
      | ClientError s en r \<Rightarrow> False
      | _ \<Rightarrow> True)"

text \<open>The raw failures only the last clause (\<^verbatim>\<open>except Exception\<close>) of \<^verbatim>\<open>MongoDBManager\<close> takes.\<close>

definition mongodb_unrecognized :: "raw_error \<Rightarrow> bool" where
  "mongodb_unrecognized e =
     (case e of
        ClientError s en r \<Rightarrow> True
      | BotoCoreError s \<Rightarrow> True
      | OtherException s \<Rightarrow> True
      | _ \<Rightarrow> False)"

text \<open>An outcome the first \<^verbatim>\<open>except\<close> clause of \<^verbatim>\<open>_make_request\<close> takes at any attempt.\<close>

definition raises_retryable :: "(http_error, http_response) result \<Rightarrow> bool" where
  "raises_retryable outcome =
     (case outcome of
        Raise (TimeoutException s) \<Rightarrow> True
      | Raise (ConnectError s) \<Rightarrow> True
      | Raise (HTTPStatusError s r) \<Rightarrow> True
      | _ \<Rightarrow> False)"

text \<open>A response with one of the statuses \<^verbatim>\<open>_make_request\<close> retries.\<close>

definition gateway_failure :: "(http_error, http_response) result \<Rightarrow> bool" where
  "gateway_failure outcome =
     (case outcome of
        Return response \<Rightarrow> resp_status_code response \<in> {502, 503, 504}
      | Raise e \<Rightarrow> False)"

text \<open>An outcome \<^verbatim>\<open>_make_request\<close> retries while attempts remain.\<close>

definition retryable_failure :: "(http_error, http_response) result \<Rightarrow> bool" where
  "retryable_failure outcome = (raises_retryable outcome \<or> gateway_failure outcome)"

text \<open>What one attempt of \<^verbatim>\<open>_make_request\<close> adds to the trace when its failure is caught.\<close>

definition attempt_events :: "int \<Rightarrow> (nat \<Rightarrow> rat) \<Rightarrow> nat \<Rightarrow> event list" where
  "attempt_events retries uniform attempt =
     (if int attempt < retries
      then [HttpRequest, Sleep (wait_time attempt (uniform attempt))]
      else [HttpRequest])"

text \<open>The world after \<open>n\<close> runs of an operation, one after the other.\<close>

definition after_runs :: "nat \<Rightarrow> ('w \<Rightarrow> 'r \<times> 'w) \<Rightarrow> 'w \<Rightarrow> 'w" where
  "after_runs n operation w = ((\<lambda>v. snd (operation v)) ^^ n) w"

text \<open>The registry is down: SSM was never available, or the fetch raises.\<close>

definition registry_fails :: "ServiceDiscovery \<Rightarrow> 'z ssm_operation \<Rightarrow> 'z runtime_scheme \<Rightarrow> bool" where
  "registry_fails self get_parameters_by_path w =
     (\<not> ssm_available self \<or>
      (case get_parameters_by_path w of (Raise e, w1) \<Rightarrow> True | (Return ps, w1) \<Rightarrow> False))"

section \<open>CircuitBreaker: lemmas\<close>

lemma on_failure_fields:
  "failure_count (on_failure b t) = failure_count b + 1"
  "last_failure_time (on_failure b t) = Some t"
  "failure_threshold (on_failure b t) = failure_threshold b"
  "recovery_timeout (on_failure b t) = recovery_timeout b"
  "expected_exception (on_failure b t) = expected_exception b"
  "state (on_failure b t) = (if failure_threshold b \<le> failure_count b + 1 then OPEN else state b)"
  by (simp_all add: on_failure_def Let_def)

lemma call_closed_failure:
  assumes "state b = CLOSED" "counted_failure (expected_exception b) func w"
  shows "fst (snd (call b func w)) = on_failure b (utcnow (snd (func w)))"
  using assms
  by (auto simp: call_def admit_def guarded_def counted_failure_def split: prod.splits result.splits)

lemma failures_open:
  assumes "state b = CLOSED"
    and "failure_count b + int (length cs) = failure_threshold b"
    and "cs \<noteq> []"
    and "\<forall>(func, w) \<in> set cs. counted_failure (expected_exception b) func w"
  shows "state (calls b cs) = OPEN"
  using assms
proof (induction cs arbitrary: b)
  case Nil
  then show ?case by simp
next
  case (Cons c rest)
  obtain func w where c: "c = (func, w)" by (cases c)
  let ?b1 = "on_failure b (utcnow (snd (func w)))"
  have step: "fst (snd (call b func w)) = ?b1"
    using Cons.prems c by (intro call_closed_failure) auto
  show ?case
  proof (cases "rest = []")
    case True
    then show ?thesis using Cons.prems step c by (simp add: on_failure_fields)
  next
    case False
    have lt: "failure_count b + 1 < failure_threshold b"
      using Cons.prems(2) False by (cases rest) auto
    have "state ?b1 = CLOSED" using Cons.prems(1) lt by (simp add: on_failure_fields)
    moreover have "failure_count ?b1 + int (length rest) = failure_threshold ?b1"
      using Cons.prems by (simp add: on_failure_fields)
    moreover have "\<forall>(func, w) \<in> set rest. counted_failure (expected_exception ?b1) func w"
      using Cons.prems by (simp add: on_failure_fields)
    ultimately have "state (calls ?b1 rest) = OPEN" using False Cons.IH by blast
    then show ?thesis using step c by simp
  qed
qed

lemma call_open_rejected:
  assumes "state b = OPEN" "last_failure_time b = Some t"
    and "utcnow w - t < of_int (recovery_timeout b)"
  shows "call b func w = (Raise (circuit_open_error b), b, w)"
  using assms by (simp add: call_def admit_def should_attempt_reset_def)

lemma call_open_elapsed:
  assumes "state b = OPEN" "last_failure_time b = Some t"
    and "of_int (recovery_timeout b) \<le> utcnow w - t"
  shows "call b func w = guarded (b\<lparr>state := HALF_OPEN\<rparr>) func w"
  using assms by (simp add: call_def admit_def should_attempt_reset_def)

lemma call_not_open:
  assumes "state b \<noteq> OPEN"
  shows "call b func w = guarded b func w"
  using assms by (simp add: call_def admit_def)

lemma tripped_on_failure:
  "tripped_invariant b \<Longrightarrow> tripped_invariant (on_failure b t)"
  by (auto simp: tripped_invariant_def on_failure_def Let_def)

lemma tripped_guarded:
  "tripped_invariant b \<Longrightarrow> tripped_invariant (fst (snd (guarded b func w)))"
  by (auto simp: guarded_def tripped_on_failure split: prod.splits result.splits)
     (simp add: tripped_invariant_def on_success_def)

lemma tripped_call:
  assumes "tripped_invariant b"
  shows "tripped_invariant (fst (snd (call b func w)))"
proof (cases "admit b (utcnow w)")
  case (Raise e)
  then show ?thesis using assms by (simp add: call_def)
next
  case (Return b1)
  then have "tripped_invariant b1"
    using assms by (auto simp: admit_def tripped_invariant_def split: if_splits)
  then show ?thesis using Return by (simp add: call_def tripped_guarded)
qed

lemma tripped_calls:
  "tripped_invariant b \<Longrightarrow> tripped_invariant (calls b cs)"
proof (induction cs arbitrary: b)
  case Nil
  then show ?case by simp
next
  case (Cons c cs)
  obtain func w where "c = (func, w)" by (cases c)
  then show ?case using Cons by (simp add: tripped_call)
qed

lemma tripped_init: "tripped_invariant (CircuitBreaker_init threshold timeout expected)"
  by (simp add: tripped_invariant_def CircuitBreaker_init_def)

lemma guarded_state_not_half_open:
  "state b \<noteq> HALF_OPEN \<Longrightarrow> state (fst (snd (guarded b func w))) \<noteq> HALF_OPEN"
  by (auto simp: guarded_def on_success_def on_failure_def Let_def split: prod.splits result.splits)

text \<open>The definitions an example unfolds to run the breaker on concrete values.\<close>

lemmas breaker_eval =
  call_def admit_def guarded_def should_attempt_reset_def on_success_def on_failure_def
  circuit_open_error_def CircuitBreaker_init_def isinstance_def
  ServiceError_init_def DynamoDBError_init_def NotFoundError_init_def ValidationError_init_def
  ConflictError_init_def RateLimitError_init_def MongoDBError_init_def Let_def

section \<open>CircuitBreaker: the claims\<close>

text \<open>
  C2. A closed breaker with no failures counted, after \<open>failure_threshold\<close> calls in a row
  whose operation raises the counted exception, is \<open>OPEN\<close> and has a failure time. And
  whenever a breaker is \<open>OPEN\<close> and less than \<open>recovery_timeout\<close> seconds have passed since
  \<open>last_failure_time\<close>, a call raises the \<open>CIRCUIT_BREAKER_OPEN\<close> error, whatever the
  operation is, and leaves the breaker and the world as they were: the operation has not
  run.
\<close>

theorem open_after_threshold_failures:
  fixes cs :: "((exc, 'a, 'z) operation \<times> 'z world_scheme) list"
  assumes "state b = CLOSED" and "failure_count b = 0"
    and "0 < failure_threshold b" and "int (length cs) = failure_threshold b"
    and "\<forall>(func, w) \<in> set cs. counted_failure (expected_exception b) func w"
  shows "state (calls b cs) = OPEN \<and>
         (\<exists>t. last_failure_time (calls b cs) = Some t) \<and>
         (\<forall>b' t (func :: (exc, 'a, 'z) operation) w.
            state b' = OPEN \<and> last_failure_time b' = Some t \<and>
            utcnow w - t < of_int (recovery_timeout b')
            \<longrightarrow> call b' func w = (Raise (circuit_open_error b'), b', w) \<and>
                code (circuit_open_error b') = ''CIRCUIT_BREAKER_OPEN'')"
proof -
  have ne: "cs \<noteq> []" using assms(3,4) by auto
  have op: "state (calls b cs) = OPEN"
    using assms ne by (intro failures_open) auto
  have "tripped_invariant (calls b cs)"
    using assms(1) by (intro tripped_calls) (simp add: tripped_invariant_def)
  with op have "\<exists>t. last_failure_time (calls b cs) = Some t"
    by (auto simp: tripped_invariant_def)
  moreover have "code (circuit_open_error b') = ''CIRCUIT_BREAKER_OPEN''" for b'
    by (simp add: circuit_open_error_def ServiceError_init_def)
  ultimately show ?thesis using op call_open_rejected by blast
qed

theorem open_after_threshold_failures_witness:
  "state (calls (CircuitBreaker_init 3 60 DynamoDBError)
            [(\<lambda>w. (Raise (DynamoDBError_init ''down'' []) :: (exc, unit) result, w), \<lparr>utcnow = 1\<rparr>),
             (\<lambda>w. (Raise (DynamoDBError_init ''down'' []), w), \<lparr>utcnow = 2\<rparr>),
             (\<lambda>w. (Raise (DynamoDBError_init ''down'' []), w), \<lparr>utcnow = 3\<rparr>)]) = OPEN \<and>
   fst (call (calls (CircuitBreaker_init 3 60 DynamoDBError)
            [(\<lambda>w. (Raise (DynamoDBError_init ''down'' []) :: (exc, unit) result, w), \<lparr>utcnow = 1\<rparr>),
             (\<lambda>w. (Raise (DynamoDBError_init ''down'' []), w), \<lparr>utcnow = 2\<rparr>),
             (\<lambda>w. (Raise (DynamoDBError_init ''down'' []), w), \<lparr>utcnow = 3\<rparr>)])
          (\<lambda>w. (Return (), w)) \<lparr>utcnow = 10\<rparr>)
     = Raise (ServiceError_init ''Service temporarily unavailable'' ''CIRCUIT_BREAKER_OPEN'' 503
                [(''retry_after'', Num 60)])"
  using open_after_threshold_failures
    [of "CircuitBreaker_init 3 60 DynamoDBError"
        "[(\<lambda>w. (Raise (DynamoDBError_init ''down'' []) :: (exc, unit) result, w), \<lparr>utcnow = 1\<rparr>),
          (\<lambda>w. (Raise (DynamoDBError_init ''down'' []), w), \<lparr>utcnow = 2\<rparr>),
          (\<lambda>w. (Raise (DynamoDBError_init ''down'' []), w), \<lparr>utcnow = 3\<rparr>)]"]
  by (simp add: breaker_eval counted_failure_def)

text \<open>
  C3, as the code has it. For an open breaker that satisfies the invariant, once
  \<open>recovery_timeout\<close> seconds have passed since \<open>last_failure_time\<close>, the call moves the
  breaker to \<open>HALF_OPEN\<close> and runs the operation. If the operation returns, the breaker is
  \<open>CLOSED\<close> with \<open>failure_count = 0\<close>. If it raises the counted exception, the breaker is
  \<open>OPEN\<close> again, \<open>last_failure_time\<close> is the time of that failure, and a call inside the new
  window is rejected. If it raises any other exception, the breaker stays \<open>HALF_OPEN\<close> with
  its count and failure time unchanged, and the next call runs its operation as well.
\<close>

theorem half_open_trial_call:
  fixes func func2 :: "(exc, 'a, 'z) operation"
  assumes "state b = OPEN" and "last_failure_time b = Some t"
    and "of_int (recovery_timeout b) \<le> utcnow w - t"
    and "failure_threshold b \<le> failure_count b"
  shows "call b func w = guarded (b\<lparr>state := HALF_OPEN\<rparr>) func w \<and>
         (\<forall>r w'. func w = (Return r, w') \<longrightarrow>
            call b func w = (Return r, b\<lparr>failure_count := 0, state := CLOSED\<rparr>, w')) \<and>
         (\<forall>e w'. func w = (Raise e, w') \<and> isinstance e (expected_exception b) \<longrightarrow>
            call b func w =
              (Raise e,
               b\<lparr>failure_count := failure_count b + 1, last_failure_time := Some (utcnow w'),
                 state := OPEN\<rparr>, w') \<and>
            (\<forall>w2. utcnow w2 - utcnow w' < of_int (recovery_timeout b) \<longrightarrow>
               fst (call (fst (snd (call b func w))) func2 w2) = Raise (circuit_open_error b))) \<and>
         (\<forall>e w'. func w = (Raise e, w') \<and> \<not> isinstance e (expected_exception b) \<longrightarrow>
            call b func w = (Raise e, b\<lparr>state := HALF_OPEN\<rparr>, w') \<and>
            (\<forall>w2. call (b\<lparr>state := HALF_OPEN\<rparr>) func2 w2 = guarded (b\<lparr>state := HALF_OPEN\<rparr>) func2 w2))"
proof -
  have disp: "call b func w = guarded (b\<lparr>state := HALF_OPEN\<rparr>) func w"
    using assms(1-3) by (rule call_open_elapsed)
  have ok: "call b func w = (Return r, b\<lparr>failure_count := 0, state := CLOSED\<rparr>, w')"
    if "func w = (Return r, w')" for r w'
    using that disp by (simp add: guarded_def on_success_def)
  have failed: "call b func w =
      (Raise e, b\<lparr>failure_count := failure_count b + 1, last_failure_time := Some (utcnow w'),
                 state := OPEN\<rparr>, w')"
    if "func w = (Raise e, w')" "isinstance e (expected_exception b)" for e w'
    using that disp assms(4) by (simp add: guarded_def on_failure_def Let_def)
  have rejected: "fst (call (fst (snd (call b func w))) func2 w2) = Raise (circuit_open_error b)"
    if "func w = (Raise e, w')" "isinstance e (expected_exception b)"
      "utcnow w2 - utcnow w' < of_int (recovery_timeout b)" for e w' w2
    using failed [OF that(1,2)] that(3)
    by (simp add: call_def admit_def should_attempt_reset_def circuit_open_error_def)
  have other: "call b func w = (Raise e, b\<lparr>state := HALF_OPEN\<rparr>, w')"
    if "func w = (Raise e, w')" "\<not> isinstance e (expected_exception b)" for e w'
    using that disp by (simp add: guarded_def)
  have again: "call (b\<lparr>state := HALF_OPEN\<rparr>) func2 w2 = guarded (b\<lparr>state := HALF_OPEN\<rparr>) func2 w2"
    for w2
    by (rule call_not_open) simp
  show ?thesis using disp ok failed rejected other again by blast
qed

theorem half_open_trial_call_witness:
  "call \<lparr>failure_threshold = 5, recovery_timeout = 30, expected_exception = DynamoDBError,
         failure_count = 5, last_failure_time = Some 100, state = OPEN\<rparr>
        (\<lambda>w. (Return (7::nat), w\<lparr>utcnow := 131\<rparr>)) \<lparr>utcnow = 130\<rparr>
     = (Return 7,
        \<lparr>failure_threshold = 5, recovery_timeout = 30, expected_exception = DynamoDBError,
         failure_count = 0, last_failure_time = Some 100, state = CLOSED\<rparr>,
        \<lparr>utcnow = 131\<rparr>)"
  using half_open_trial_call
    [of "\<lparr>failure_threshold = 5, recovery_timeout = 30, expected_exception = DynamoDBError,
          failure_count = 5, last_failure_time = Some 100, state = OPEN\<rparr>"
        100 "\<lparr>utcnow = 130\<rparr>" "\<lambda>w. (Return (7::nat), w\<lparr>utcnow := 131\<rparr>)"]
  by (simp add: breaker_eval)

text \<open>
  The claim as the spec states it fails when the trial call raises an exception the
  breaker does not count: \<^verbatim>\<open>NotFoundError\<close> under \<^verbatim>\<open>DynamoDBManager\<close>'s breaker. The breaker
  is then \<open>HALF_OPEN\<close>, not \<open>OPEN\<close>, its failure time is the old one, and a second call
  right after runs its operation too.
\<close>

theorem half_open_trial_call_counterexample:
  "state (fst (snd (call
       \<lparr>failure_threshold = 5, recovery_timeout = 30, expected_exception = DynamoDBError,
        failure_count = 5, last_failure_time = Some 100, state = OPEN\<rparr>
       (\<lambda>w. (Raise (NotFoundError_init ''no such user'' []) :: (exc, nat) result, w\<lparr>utcnow := 131\<rparr>))
       \<lparr>utcnow = 130\<rparr>))) = HALF_OPEN \<and>
   last_failure_time (fst (snd (call
       \<lparr>failure_threshold = 5, recovery_timeout = 30, expected_exception = DynamoDBError,
        failure_count = 5, last_failure_time = Some 100, state = OPEN\<rparr>
       (\<lambda>w. (Raise (NotFoundError_init ''no such user'' []) :: (exc, nat) result, w\<lparr>utcnow := 131\<rparr>))
       \<lparr>utcnow = 130\<rparr>))) = Some 100 \<and>
   fst (call
       (fst (snd (call
          \<lparr>failure_threshold = 5, recovery_timeout = 30, expected_exception = DynamoDBError,
           failure_count = 5, last_failure_time = Some 100, state = OPEN\<rparr>
          (\<lambda>w. (Raise (NotFoundError_init ''no such user'' []) :: (exc, nat) result, w\<lparr>utcnow := 131\<rparr>))
          \<lparr>utcnow = 130\<rparr>)))
       (\<lambda>w. (Raise (NotFoundError_init ''no such user'' []) :: (exc, nat) result, w\<lparr>utcnow := 133\<rparr>))
       \<lparr>utcnow = 132\<rparr>) = Raise (NotFoundError_init ''no such user'' [])"
  by (simp add: breaker_eval)

text \<open>
  C7. Every breaker reached from the initial state by any sequence of calls satisfies the
  invariant: if it is \<open>OPEN\<close>, it has a failure time and \<open>failure_count \<ge> failure_threshold\<close>.
  And the state becomes \<open>HALF_OPEN\<close>, at the admission of a call or as seen after the call,
  only when the breaker was \<open>OPEN\<close> with \<open>now - last_failure_time \<ge> recovery_timeout\<close>.
\<close>

theorem invariant_from_initial_state:
  fixes cs :: "((exc, 'a, 'z) operation \<times> 'z world_scheme) list"
    and func :: "(exc, 'a, 'z) operation"
    and threshold timeout :: int and expected :: exc_class
  defines "b \<equiv> calls (CircuitBreaker_init threshold timeout expected) cs"
  shows "breaker_invariant b \<and>
         (\<forall>now b1. state b \<noteq> HALF_OPEN \<and> admit b now = Return b1 \<and> state b1 = HALF_OPEN \<longrightarrow>
            state b = OPEN \<and>
            (\<exists>t. last_failure_time b = Some t \<and> of_int (recovery_timeout b) \<le> now - t)) \<and>
         (state b \<noteq> HALF_OPEN \<and> state (fst (snd (call b func w))) = HALF_OPEN \<longrightarrow>
            state b = OPEN \<and>
            (\<exists>t. last_failure_time b = Some t \<and> of_int (recovery_timeout b) \<le> utcnow w - t))"
proof -
  have inv: "tripped_invariant b"
    unfolding b_def by (rule tripped_calls [OF tripped_init])
  have 1: "breaker_invariant b"
    using inv by (simp add: breaker_invariant_def tripped_invariant_def)
  have 2: "state b = OPEN \<and>
           (\<exists>t. last_failure_time b = Some t \<and> of_int (recovery_timeout b) \<le> now - t)"
    if "state b \<noteq> HALF_OPEN" "admit b now = Return b1" "state b1 = HALF_OPEN" for now b1
  proof -
    from that have op: "state b = OPEN" and r: "should_attempt_reset b now"
      by (auto simp: admit_def split: if_splits)
    from op inv obtain t where t: "last_failure_time b = Some t"
      by (auto simp: tripped_invariant_def)
    with r op show ?thesis by (simp add: should_attempt_reset_def)
  qed
  have 3: "state b = OPEN \<and>
           (\<exists>t. last_failure_time b = Some t \<and> of_int (recovery_timeout b) \<le> utcnow w - t)"
    if nh: "state b \<noteq> HALF_OPEN" and h: "state (fst (snd (call b func w))) = HALF_OPEN"
  proof (cases "admit b (utcnow w)")
    case (Raise e)
    then show ?thesis using nh h by (simp add: call_def)
  next
    case (Return b1)
    then have "state (fst (snd (guarded b1 func w))) = HALF_OPEN"
      using h by (simp add: call_def)
    then have "state b1 = HALF_OPEN" using guarded_state_not_half_open by blast
    then show ?thesis using 2 [OF nh Return] by simp
  qed
  show ?thesis using 1 2 3 by blast
qed

theorem invariant_from_initial_state_witness:
  "breaker_invariant (calls (CircuitBreaker_init 2 30 DynamoDBError)
      [(\<lambda>w. (Raise (DynamoDBError_init ''down'' []) :: (exc, unit) result, w), \<lparr>utcnow = 1\<rparr>),
       (\<lambda>w. (Raise (DynamoDBError_init ''down'' []), w), \<lparr>utcnow = 2\<rparr>)]) \<and>
   state (calls (CircuitBreaker_init 2 30 DynamoDBError)
      [(\<lambda>w. (Raise (DynamoDBError_init ''down'' []) :: (exc, unit) result, w), \<lparr>utcnow = 1\<rparr>),
       (\<lambda>w. (Raise (DynamoDBError_init ''down'' []), w), \<lparr>utcnow = 2\<rparr>)]) = OPEN \<and>
   failure_count (calls (CircuitBreaker_init 2 30 DynamoDBError)
      [(\<lambda>w. (Raise (DynamoDBError_init ''down'' []) :: (exc, unit) result, w), \<lparr>utcnow = 1\<rparr>),
       (\<lambda>w. (Raise (DynamoDBError_init ''down'' []), w), \<lparr>utcnow = 2\<rparr>)]) = 2 \<and>
   last_failure_time (calls (CircuitBreaker_init 2 30 DynamoDBError)
      [(\<lambda>w. (Raise (DynamoDBError_init ''down'' []) :: (exc, unit) result, w), \<lparr>utcnow = 1\<rparr>),
       (\<lambda>w. (Raise (DynamoDBError_init ''down'' []), w), \<lparr>utcnow = 2\<rparr>)]) = Some 2 \<and>
   state (fst (snd (call (calls (CircuitBreaker_init 2 30 DynamoDBError)
      [(\<lambda>w. (Raise (DynamoDBError_init ''down'' []) :: (exc, unit) result, w), \<lparr>utcnow = 1\<rparr>),
       (\<lambda>w. (Raise (DynamoDBError_init ''down'' []), w), \<lparr>utcnow = 2\<rparr>)])
      (\<lambda>w. (Raise (NotFoundError_init ''missing'' []) :: (exc, unit) result, w))
      \<lparr>utcnow = 40\<rparr>))) = HALF_OPEN \<and>
   (of_int 30 :: rat) \<le> 40 - 2"
  using invariant_from_initial_state
    [of 2 30 DynamoDBError
        "[(\<lambda>w. (Raise (DynamoDBError_init ''down'' []) :: (exc, unit) result, w), \<lparr>utcnow = 1\<rparr>),
          (\<lambda>w. (Raise (DynamoDBError_init ''down'' []), w), \<lparr>utcnow = 2\<rparr>)]"
        "\<lambda>w. (Raise (NotFoundError_init ''missing'' []) :: (exc, unit) result, w)"
        "\<lparr>utcnow = 40\<rparr>"]
  by (simp add: breaker_eval breaker_invariant_def)

text \<open>
  C8. A call that runs its operation (the breaker is not \<open>OPEN\<close>, or the reset is due), and
  whose operation raises an exception that is not an instance of \<open>expected_exception\<close>,
  raises that same exception and leaves \<open>failure_count\<close> and \<open>last_failure_time\<close> as they
  were; the breaker is not \<open>OPEN\<close> afterwards. \<^verbatim>\<open>ValidationError\<close>, \<^verbatim>\<open>NotFoundError\<close> and
  \<^verbatim>\<open>ConflictError\<close> are such exceptions for the \<^verbatim>\<open>DynamoDBError\<close> breaker of the auth
  service, and so is whatever \<^verbatim>\<open>DynamoDBManager\<close> makes of a \<^verbatim>\<open>ClientError\<close> with one of
  the four codes it names.
\<close>

theorem uncounted_error_leaves_breaker:
  fixes func :: "(exc, 'a, 'z) operation"
  assumes "func w = (Raise e, w')"
    and "\<not> isinstance e (expected_exception b)"
    and "state b \<noteq> OPEN \<or> should_attempt_reset b (utcnow w)"
  shows "fst (call b func w) = Raise e \<and>
         failure_count (fst (snd (call b func w))) = failure_count b \<and>
         last_failure_time (fst (snd (call b func w))) = last_failure_time b \<and>
         state (fst (snd (call b func w))) \<noteq> OPEN \<and>
         state (fst (snd (call b func w))) = (if state b = OPEN then HALF_OPEN else state b) \<and>
         \<not> isinstance (ValidationError_init m d) DynamoDBError \<and>
         \<not> isinstance (NotFoundError_init m d) DynamoDBError \<and>
         \<not> isinstance (ConflictError_init m d) DynamoDBError \<and>
         (dynamodb_recognized raw \<longrightarrow> \<not> isinstance (dynamodb_classify raw) DynamoDBError)"
proof -
  have "\<not> isinstance (dynamodb_classify raw) DynamoDBError" if "dynamodb_recognized raw"
    using that
    by (induction raw rule: dynamodb_classify.induct)
       (auto simp: dynamodb_recognized_def breaker_eval split: if_splits)
  then show ?thesis using assms by (auto simp: breaker_eval)
qed

theorem uncounted_error_leaves_breaker_witness:
  "fst (call ((CircuitBreaker_init 1 30 DynamoDBError))
          (\<lambda>w. (Raise (ValidationError_init ''bad input'' []) :: (exc, unit) result, w))
          \<lparr>utcnow = 5\<rparr>) = Raise (ValidationError_init ''bad input'' []) \<and>
   failure_count (fst (snd (call ((CircuitBreaker_init 1 30 DynamoDBError))
          (\<lambda>w. (Raise (ValidationError_init ''bad input'' []) :: (exc, unit) result, w))
          \<lparr>utcnow = 5\<rparr>))) = 0 \<and>
   state (fst (snd (call ((CircuitBreaker_init 1 30 DynamoDBError))
          (\<lambda>w. (Raise (ValidationError_init ''bad input'' []) :: (exc, unit) result, w))
          \<lparr>utcnow = 5\<rparr>))) = CLOSED"
  using uncounted_error_leaves_breaker
    [of "\<lambda>w. (Raise (ValidationError_init ''bad input'' []) :: (exc, unit) result, w)"
        "\<lparr>utcnow = 5\<rparr>" "ValidationError_init ''bad input'' []" "\<lparr>utcnow = 5\<rparr>"
        "CircuitBreaker_init 1 30 DynamoDBError"]
  by (simp add: breaker_eval)

section \<open>The database managers: the claims\<close>

lemma dynamodb_classify_unrecognized:
  assumes "dynamodb_unrecognized e"
  shows "cls (dynamodb_classify e) = DynamoDBError"
    and "code (dynamodb_classify e) = ''DYNAMODB_ERROR''"
    and "status_code (dynamodb_classify e) = 503"
  using assms
  by (induction e rule: dynamodb_classify.induct;
      simp add: dynamodb_unrecognized_def DynamoDBError_init_def ServiceError_init_def)+

lemma mongodb_classify_unrecognized:
  assumes "mongodb_unrecognized e"
  shows "mongodb_classify e = MongoDBError_init (''Unexpected database error: '' @ str_of e) []"
  using assms by (cases e) (auto simp: mongodb_unrecognized_def)

text \<open>
  \<^verbatim>\<open>execute_with_retry\<close> runs the operation once when the breaker lets the call through:
  the world it leaves is the world after one run, whatever \<^verbatim>\<open>max_attempts\<close> says.
\<close>

lemma mongodb_execute_with_retry_runs_once:
  assumes "state (mongo_circuit_breaker self) \<noteq> OPEN"
  shows "snd (snd (mongodb_execute_with_retry self operation w)) = snd (operation w)"
  using assms
  by (auto simp: mongodb_execute_with_retry_def mongodb_execute_def call_def admit_def guarded_def
           split: prod.splits result.splits)

lemma dynamodb_execute_with_retry_runs_once:
  assumes "state (circuit_breaker self) \<noteq> OPEN"
  shows "snd (snd (dynamodb_execute_with_retry self operation w)) = snd (operation w)"
  using assms
  by (auto simp: dynamodb_execute_with_retry_def dynamodb_execute_def call_def admit_def guarded_def
           split: prod.splits result.splits)

text \<open>
  An operation that counts its runs in the world and always raises \<^verbatim>\<open>ConnectionFailure\<close>,
  under a manager configured for three attempts: one run.
\<close>

lemma mongodb_execute_with_retry_three_attempts_one_run:
  "snd (snd (mongodb_execute_with_retry
       (MongoDBManager_init (Some (RetryConfig_init\<lparr>max_attempts := 3\<rparr>)))
       (\<lambda>w. (Raise (ConnectionFailure ''refused'') :: (raw_error, unit) result,
              w\<lparr>utcnow := utcnow w + 1\<rparr>))
       \<lparr>utcnow = 0\<rparr>)) = \<lparr>utcnow = 1\<rparr>"
  by (simp add: mongodb_execute_with_retry_def mongodb_execute_def MongoDBManager_init_def
        breaker_eval)

lemma admit_keeps_counters:
  assumes "admit b now = Return b1"
  shows "failure_count b1 = failure_count b"
    and "failure_threshold b1 = failure_threshold b"
    and "expected_exception b1 = expected_exception b"
  using assms by (auto simp: admit_def split: if_splits)

lemma dispatched_counted_failure:
  assumes "func w = (Raise e, w')" and "admit b (utcnow w) = Return b1"
    and "isinstance e (expected_exception b)"
  shows "call b func w = (Raise e, on_failure b1 (utcnow w'), w')"
  using assms admit_keeps_counters(3) [OF assms(2)]
  by (simp add: call_def guarded_def)

text \<open>
  A \<^verbatim>\<open>ClientError\<close> whose response has no \<^verbatim>\<open>'Code'\<close> leaves \<^verbatim>\<open>_execute\<close> as a \<^verbatim>\<open>KeyError\<close>,
  which the breaker does not count.
\<close>

lemma dynamodb_client_error_without_code:
  "fst (dynamodb_execute_with_retry (DynamoDBManager_init None)
          (\<lambda>w. (Raise (ClientError ''An error occurred'' (Some (ErrorEntry None (Some ''m''))) None)
                   :: (raw_error, unit) result, w))
          \<lparr>utcnow = 7\<rparr>) = Raise (key_error ''Code'') \<and>
   failure_count (circuit_breaker (fst (snd (dynamodb_execute_with_retry (DynamoDBManager_init None)
          (\<lambda>w. (Raise (ClientError ''An error occurred'' (Some (ErrorEntry None (Some ''m''))) None)
                   :: (raw_error, unit) result, w))
          \<lparr>utcnow = 7\<rparr>)))) = 0"
  by (simp add: dynamodb_execute_with_retry_def dynamodb_execute_def DynamoDBManager_init_def
        key_error_def builtin_exception_def breaker_eval)

text \<open>
  C4, as the code has it. A raw failure that falls through the specific rules of a
  manager is classified as the manager's own dependency error. In the auth service these
  are a \<^verbatim>\<open>ClientError\<close> that carries its code and message with a code other than the four
  named, a \<^verbatim>\<open>BotoCoreError\<close>, and any other exception; they become \<^verbatim>\<open>DynamoDBError\<close> (code
  \<open>DYNAMODB_ERROR\<close>, status 503). In order-processing these are the exceptions that are not
  pymongo errors; they become \<^verbatim>\<open>MongoDBError\<close> (code \<open>MONGODB_ERROR\<close>, status 503). That is
  the exception the manager's breaker counts: every call the breaker lets through (it is
  not \<open>OPEN\<close>, or the reset is due) raises it, adds one to \<open>failure_count\<close> and sets
  \<open>last_failure_time\<close> to the time of the failure. The operation runs once: the failure is
  not retried.
\<close>

theorem unrecognized_failure_is_dependency_error:
  fixes operation :: "(raw_error, 'a, 'z) operation"
  shows "(dynamodb_unrecognized e \<longrightarrow>
            cls (dynamodb_classify e) = DynamoDBError \<and>
            code (dynamodb_classify e) = ''DYNAMODB_ERROR'' \<and>
            status_code (dynamodb_classify e) = 503 \<and>
            isinstance (dynamodb_classify e)
              (expected_exception (circuit_breaker (DynamoDBManager_init rc))) \<and>
            (operation w = (Raise e, w') \<and>
             admit (circuit_breaker self) (utcnow w) = Return b1 \<and>
             expected_exception (circuit_breaker self) = DynamoDBError \<longrightarrow>
               dynamodb_execute_with_retry self operation w =
                 (Raise (dynamodb_classify e),
                  self\<lparr>circuit_breaker := on_failure b1 (utcnow w')\<rparr>, w') \<and>
               failure_count (on_failure b1 (utcnow w')) =
                 failure_count (circuit_breaker self) + 1 \<and>
               last_failure_time (on_failure b1 (utcnow w')) = Some (utcnow w'))) \<and>
         (mongodb_unrecognized e \<longrightarrow>
            cls (mongodb_classify e) = MongoDBError \<and>
            code (mongodb_classify e) = ''MONGODB_ERROR'' \<and>
            status_code (mongodb_classify e) = 503 \<and>
            isinstance (mongodb_classify e)
              (expected_exception (mongo_circuit_breaker (MongoDBManager_init rc))) \<and>
            (operation w = (Raise e, w') \<and>
             admit (mongo_circuit_breaker mself) (utcnow w) = Return b2 \<and>
             expected_exception (mongo_circuit_breaker mself) = MongoDBError \<longrightarrow>
               mongodb_execute_with_retry mself operation w =
                 (Raise (mongodb_classify e),
                  mself\<lparr>mongo_circuit_breaker := on_failure b2 (utcnow w')\<rparr>, w') \<and>
               failure_count (on_failure b2 (utcnow w')) =
                 failure_count (mongo_circuit_breaker mself) + 1 \<and>
               last_failure_time (on_failure b2 (utcnow w')) = Some (utcnow w')))"
proof -
  have d: "cls (dynamodb_classify e) = DynamoDBError \<and>
           code (dynamodb_classify e) = ''DYNAMODB_ERROR'' \<and>
           status_code (dynamodb_classify e) = 503 \<and>
           isinstance (dynamodb_classify e) DynamoDBError"
    if "dynamodb_unrecognized e"
    using dynamodb_classify_unrecognized [OF that] by (simp add: isinstance_def)
  have dcall: "dynamodb_execute_with_retry self operation w =
      (Raise (dynamodb_classify e), self\<lparr>circuit_breaker := on_failure b1 (utcnow w')\<rparr>, w')"
    if u: "dynamodb_unrecognized e" and op: "operation w = (Raise e, w')"
      and ad: "admit (circuit_breaker self) (utcnow w) = Return b1"
      and ex: "expected_exception (circuit_breaker self) = DynamoDBError"
  proof -
    have "dynamodb_execute operation w = (Raise (dynamodb_classify e), w')"
      using op by (simp add: dynamodb_execute_def)
    moreover have "isinstance (dynamodb_classify e) (expected_exception (circuit_breaker self))"
      using d [OF u] ex by simp
    ultimately have "call (circuit_breaker self) (dynamodb_execute operation) w =
        (Raise (dynamodb_classify e), on_failure b1 (utcnow w'), w')"
      using ad by (intro dispatched_counted_failure)
    then show ?thesis by (simp add: dynamodb_execute_with_retry_def)
  qed
  have m: "cls (mongodb_classify e) = MongoDBError \<and>
           code (mongodb_classify e) = ''MONGODB_ERROR'' \<and>
           status_code (mongodb_classify e) = 503 \<and>
           isinstance (mongodb_classify e) MongoDBError"
    if "mongodb_unrecognized e"
    using mongodb_classify_unrecognized [OF that]
    by (simp add: MongoDBError_init_def ServiceError_init_def isinstance_def)
  have mcall: "mongodb_execute_with_retry mself operation w =
      (Raise (mongodb_classify e),
       mself\<lparr>mongo_circuit_breaker := on_failure b2 (utcnow w')\<rparr>, w')"
    if u: "mongodb_unrecognized e" and op: "operation w = (Raise e, w')"
      and ad: "admit (mongo_circuit_breaker mself) (utcnow w) = Return b2"
      and ex: "expected_exception (mongo_circuit_breaker mself) = MongoDBError"
  proof -
    have "mongodb_execute operation w = (Raise (mongodb_classify e), w')"
      using op by (simp add: mongodb_execute_def)
    moreover have "isinstance (mongodb_classify e)
                     (expected_exception (mongo_circuit_breaker mself))"
      using m [OF u] ex by simp
    ultimately have "call (mongo_circuit_breaker mself) (mongodb_execute operation) w =
        (Raise (mongodb_classify e), on_failure b2 (utcnow w'), w')"
      using ad by (intro dispatched_counted_failure)
    then show ?thesis by (simp add: mongodb_execute_with_retry_def)
  qed
  have c1: "failure_count (on_failure b1 (utcnow w')) = failure_count (circuit_breaker self) + 1"
    if "admit (circuit_breaker self) (utcnow w) = Return b1"
    using admit_keeps_counters(1) [OF that] by (simp add: on_failure_fields)
  have c2: "failure_count (on_failure b2 (utcnow w')) =
              failure_count (mongo_circuit_breaker mself) + 1"
    if "admit (mongo_circuit_breaker mself) (utcnow w) = Return b2"
    using admit_keeps_counters(1) [OF that] by (simp add: on_failure_fields)
  have e1: "expected_exception (circuit_breaker (DynamoDBManager_init rc)) = DynamoDBError"
    by (simp add: DynamoDBManager_init_def CircuitBreaker_init_def)
  have e2: "expected_exception (mongo_circuit_breaker (MongoDBManager_init rc)) = MongoDBError"
    by (simp add: MongoDBManager_init_def CircuitBreaker_init_def)
  show ?thesis using d dcall m mcall c1 c2 e1 e2 by (simp add: on_failure_fields)
qed

text \<open>
  The theorem at a throttled DynamoDB call through a fresh manager, at the same error
  through a breaker that is \<open>OPEN\<close> with its reset due, and at a foreign exception under
  the MongoDB manager.
\<close>

theorem unrecognized_failure_is_dependency_error_witness:
  "dynamodb_execute_with_retry (DynamoDBManager_init None)
       (\<lambda>w. (Raise (ClientError ''An error occurred''
                      (Some (ErrorEntry (Some ''InternalServerError'') (Some ''try again''))) None)
                :: (raw_error, unit) result,
              w\<lparr>utcnow := 8\<rparr>))
       \<lparr>utcnow = 7\<rparr>
     = (Raise (DynamoDBError_init ''DynamoDB error (InternalServerError): try again''
                 [(''error_code'', Str ''InternalServerError''), (''request_id'', NoneValue)]),
        (DynamoDBManager_init None)
          \<lparr>circuit_breaker :=
             \<lparr>failure_threshold = 5, recovery_timeout = 30, expected_exception = DynamoDBError,
              failure_count = 1, last_failure_time = Some 8, state = CLOSED\<rparr>\<rparr>,
        \<lparr>utcnow = 8\<rparr>) \<and>
   fst (snd (dynamodb_execute_with_retry
       ((DynamoDBManager_init None)
          \<lparr>circuit_breaker :=
             \<lparr>failure_threshold = 5, recovery_timeout = 30, expected_exception = DynamoDBError,
              failure_count = 5, last_failure_time = Some 100, state = OPEN\<rparr>\<rparr>)
       (\<lambda>w. (Raise (ClientError ''An error occurred''
                      (Some (ErrorEntry (Some ''InternalServerError'') (Some ''try again''))) None)
                :: (raw_error, unit) result,
              w\<lparr>utcnow := 131\<rparr>))
       \<lparr>utcnow = 130\<rparr>))
     = (DynamoDBManager_init None)
          \<lparr>circuit_breaker :=
             \<lparr>failure_threshold = 5, recovery_timeout = 30, expected_exception = DynamoDBError,
              failure_count = 6, last_failure_time = Some 131, state = OPEN\<rparr>\<rparr> \<and>
   cls (mongodb_classify (OtherException ''boom'')) = MongoDBError"
  using unrecognized_failure_is_dependency_error
    [of "ClientError ''An error occurred''
           (Some (ErrorEntry (Some ''InternalServerError'') (Some ''try again''))) None" None
        "\<lambda>w. (Raise (ClientError ''An error occurred''
                      (Some (ErrorEntry (Some ''InternalServerError'') (Some ''try again''))) None)
                :: (raw_error, unit) result,
              w\<lparr>utcnow := 8\<rparr>)"
        "\<lparr>utcnow = 7\<rparr>" "\<lparr>utcnow = 8\<rparr>" "DynamoDBManager_init None"
        "circuit_breaker (DynamoDBManager_init None)"]
    unrecognized_failure_is_dependency_error
    [of "ClientError ''An error occurred''
           (Some (ErrorEntry (Some ''InternalServerError'') (Some ''try again''))) None" None
        "\<lambda>w. (Raise (ClientError ''An error occurred''
                      (Some (ErrorEntry (Some ''InternalServerError'') (Some ''try again''))) None)
                :: (raw_error, unit) result,
              w\<lparr>utcnow := 131\<rparr>)"
        "\<lparr>utcnow = 130\<rparr>" "\<lparr>utcnow = 131\<rparr>"
        "(DynamoDBManager_init None)
          \<lparr>circuit_breaker :=
             \<lparr>failure_threshold = 5, recovery_timeout = 30, expected_exception = DynamoDBError,
              failure_count = 5, last_failure_time = Some 100, state = OPEN\<rparr>\<rparr>"
        "\<lparr>failure_threshold = 5, recovery_timeout = 30, expected_exception = DynamoDBError,
          failure_count = 5, last_failure_time = Some 100, state = HALF_OPEN\<rparr>"]
    unrecognized_failure_is_dependency_error
    [of "OtherException ''boom''" None
        "\<lambda>w. (Raise (OtherException ''boom'') :: (raw_error, unit) result, w)"
        "\<lparr>utcnow = 7\<rparr>" "\<lparr>utcnow = 7\<rparr>"]
  by (simp add: dynamodb_unrecognized_def mongodb_unrecognized_def DynamoDBManager_init_def
        opt_str_def breaker_eval)

text \<open>
  The claim as the spec states it (kind Internal, not counted) fails on an exception that
  no rule names: the auth manager raises \<^verbatim>\<open>DynamoDBError\<close> with status 503, and the
  breaker's \<open>failure_count\<close> goes from 0 to 1.
\<close>

theorem unrecognized_failure_counterexample:
  "fst (dynamodb_execute_with_retry (DynamoDBManager_init None)
          (\<lambda>w. (Raise (OtherException ''boom'') :: (raw_error, unit) result, w))
          \<lparr>utcnow = 7\<rparr>)
     = Raise \<lparr>cls = DynamoDBError, message = ''Unexpected DynamoDB error: boom'',
              code = ''DYNAMODB_ERROR'', status_code = 503, details = []\<rparr> \<and>
   failure_count (circuit_breaker (DynamoDBManager_init None)) = 0 \<and>
   failure_count (circuit_breaker (fst (snd (dynamodb_execute_with_retry (DynamoDBManager_init None)
          (\<lambda>w. (Raise (OtherException ''boom'') :: (raw_error, unit) result, w))
          \<lparr>utcnow = 7\<rparr>)))) = 1"
  by (simp add: dynamodb_execute_with_retry_def dynamodb_execute_def DynamoDBManager_init_def
        breaker_eval)

section \<open>The retry loops: lemmas\<close>

lemma sleeps_append: "sleeps (xs @ ys) = sleeps xs @ sleeps ys"
  by (simp add: sleeps_def)

lemma count_event_append: "count_event ev (xs @ ys) = count_event ev xs + count_event ev ys"
  by (simp add: count_event_def)

lemma after_runs_Suc: "after_runs n operation (snd (operation w)) = after_runs (Suc n) operation w"
proof -
  have "((\<lambda>v. snd (operation v)) ^^ n) ((\<lambda>v. snd (operation v)) w) =
        (\<lambda>v. snd (operation v)) (((\<lambda>v. snd (operation v)) ^^ n) w)"
    by (rule funpow_swap1 [symmetric])
  then show ?thesis by (simp add: after_runs_def)
qed

lemma after_runs_0: "after_runs 0 operation w = w"
  by (simp add: after_runs_def)

lemma after_runs_step: "after_runs (Suc n) operation w = snd (operation (after_runs n operation w))"
  by (simp add: after_runs_def)

text \<open>
  While every attempt of a prefix of the loop is caught, the loop runs the request once
  per attempt and goes on with the rest of the attempts.
\<close>

lemma request_attempts_caught_prefix:
  assumes "\<forall>a \<in> set pre. \<forall>v. \<exists>e. try_request retries a (fst (request v)) = Caught e"
  shows "\<exists>le. (pre = [] \<longrightarrow> le = last_exception) \<and>
           request_attempts retries request uniform (pre @ rest) last_exception w =
             (case request_attempts retries request uniform rest le
                     (after_runs (length pre) request w) of
                (r, w2, tr) \<Rightarrow> (r, w2, concat (map (attempt_events retries uniform) pre) @ tr))"
  using assms
proof (induction pre arbitrary: last_exception w)
  case Nil
  then show ?case by (simp add: after_runs_0)
next
  case (Cons a pre)
  obtain outcome w1 where rq: "request w = (outcome, w1)" by (cases "request w")
  from Cons.prems obtain e where e: "try_request retries a (fst (request w)) = Caught e"
    by (meson list.set_intros(1))
  have "\<forall>a \<in> set pre. \<forall>v. \<exists>e. try_request retries a (fst (request v)) = Caught e"
    using Cons.prems by simp
  from Cons.IH [OF this, of "Some e" w1]
  obtain le where le:
    "request_attempts retries request uniform (pre @ rest) (Some e) w1 =
       (case request_attempts retries request uniform rest le (after_runs (length pre) request w1) of
          (r, w2, tr) \<Rightarrow> (r, w2, concat (map (attempt_events retries uniform) pre) @ tr))"
    by blast
  have w1: "after_runs (length pre) request w1 = after_runs (length (a # pre)) request w"
    using rq after_runs_Suc [of "length pre" request w] by simp
  have step: "request_attempts retries request uniform ((a # pre) @ rest) last_exception w =
      (case request_attempts retries request uniform (pre @ rest) (Some e) w1 of
         (r, w2, tr) \<Rightarrow> (r, w2, attempt_events retries uniform a @ tr))"
    using rq e by (simp add: attempt_events_def)
  show ?case
    unfolding step le w1
    by (intro exI [of _ le]) (simp split: prod.splits)
qed

lemma caught_events:
  assumes "\<forall>a \<in> set as. int a < retries"
  shows "sleeps (concat (map (attempt_events retries uniform) as)) =
           map (\<lambda>a. wait_time a (uniform a)) as"
    and "count_event HttpRequest (concat (map (attempt_events retries uniform) as)) = length as"
  using assms
  by (induction as) (simp_all add: sleeps_def count_event_def attempt_events_def)

lemma py_range_Suc:
  assumes "0 \<le> n"
  shows "py_range (n + 1) = [0..<nat n] @ [nat n]"
  using assms by (simp add: py_range_def nat_add_distrib)

lemma upt_below_retries: "\<forall>a \<in> set [0..<nat retries]. int a < retries"
  by auto

text \<open>The whole of \<^verbatim>\<open>_make_request\<close> when every attempt but the last is caught.\<close>

lemma make_request_last_attempt:
  assumes "0 \<le> retries"
    and "\<forall>a \<in> set [0..<nat retries]. \<forall>v. \<exists>e. try_request retries a (fst (request v)) = Caught e"
  shows "\<exists>le. make_request retries request uniform w =
           (case request_attempts retries request uniform [nat retries] le
                   (after_runs (nat retries) request w) of
              (r, w2, tr) \<Rightarrow>
                (r, w2, concat (map (attempt_events retries uniform) [0..<nat retries]) @ tr))"
  using request_attempts_caught_prefix [OF assms(2), of None uniform "[nat retries]" w]
  by (auto simp: make_request_def py_range_Suc [OF assms(1)])

lemma try_request_raises_retryable:
  assumes "raises_retryable outcome"
  shows "\<exists>e. outcome = Raise e \<and> try_request retries a outcome = Caught e"
  using assms
  by (auto simp: raises_retryable_def try_request_def split: result.splits http_error.splits)

lemma try_request_gateway_failure:
  assumes "gateway_failure outcome"
  shows "\<exists>response. outcome = Return response \<and> resp_status_code response \<in> {502, 503, 504} \<and>
           try_request retries a outcome =
             (if int a < retries
              then Caught (HTTPStatusError (''HTTP '' @ str_int (resp_status_code response)) response)
              else Done (Return response))"
  using assms
  by (auto simp: gateway_failure_def try_request_def split: result.splits)

lemma make_request_trace:
  assumes "0 \<le> retries"
    and "tr = concat (map (attempt_events retries uniform) [0..<nat retries]) @ [HttpRequest]"
  shows "count_event HttpRequest tr = nat retries + 1"
    and "sleeps tr = map (\<lambda>a. wait_time a (uniform a)) [0..<nat retries]"
  using assms caught_events [OF upt_below_retries, of retries uniform]
  by (simp_all add: count_event_append sleeps_append) (simp_all add: count_event_def sleeps_def)

text \<open>An operation that fails on every run goes through all the attempts.\<close>

lemma make_request_always_failing:
  assumes "0 \<le> retries" and "\<forall>v. retryable_failure (fst (request v))"
  shows "make_request retries request uniform w =
           (fst (request (after_runs (nat retries) request w)),
            after_runs (nat retries + 1) request w,
            concat (map (attempt_events retries uniform) [0..<nat retries]) @ [HttpRequest])"
proof -
  have caught: "\<exists>e. try_request retries a (fst (request v)) = Caught e"
    if "a \<in> set [0..<nat retries]" for a v
  proof (cases "raises_retryable (fst (request v))")
    case True
    then show ?thesis using try_request_raises_retryable by blast
  next
    case False
    then have g: "gateway_failure (fst (request v))"
      using assms(2) by (auto simp: retryable_failure_def)
    have "int a < retries" using that by auto
    then show ?thesis
      using try_request_gateway_failure [OF g, of retries a] by auto
  qed
  then obtain le where le:
    "make_request retries request uniform w =
       (case request_attempts retries request uniform [nat retries] le
               (after_runs (nat retries) request w) of
          (r, w2, tr) \<Rightarrow>
            (r, w2, concat (map (attempt_events retries uniform) [0..<nat retries]) @ tr))"
    using make_request_last_attempt [OF assms(1), of request uniform w] by blast
  let ?v = "after_runs (nat retries) request w"
  obtain outcome v1 where rq: "request ?v = (outcome, v1)" by (cases "request ?v")
  have v1: "v1 = after_runs (nat retries + 1) request w"
    using rq after_runs_step [of "nat retries" request w] by simp
  have last: "request_attempts retries request uniform [nat retries] le ?v =
                (outcome, v1, [HttpRequest])"
  proof (cases "raises_retryable outcome")
    case True
    from try_request_raises_retryable [OF this, of retries "nat retries"]
    obtain e where "outcome = Raise e" "try_request retries (nat retries) outcome = Caught e"
      by blast
    then show ?thesis using rq assms(1) by simp
  next
    case False
    then have g: "gateway_failure outcome"
      using assms(2) rq by (metis fst_conv retryable_failure_def)
    from try_request_gateway_failure [OF g, of retries "nat retries"]
    obtain response where "outcome = Return response"
      "try_request retries (nat retries) outcome = Done (Return response)"
      using assms(1) by auto
    then show ?thesis using rq by simp
  qed
  show ?thesis using le last rq v1 by simp
qed

section \<open>HTTPClientService._make_request: the claims\<close>

text \<open>
  C1, as the code has it, for \<^verbatim>\<open>_make_request\<close> with \<open>retries + 1 = n\<close> attempts in all
  (\<open>retries \<ge> 0\<close>). If on every run the request raises a timeout, a connect error or a
  status error, or answers 502, 503 or 504, then the request runs exactly \<open>n\<close> times and the
  call ends with the outcome of the last run: that exception is raised if the last run
  raised, that response is returned if the last run answered.
\<close>

theorem make_request_runs_all_attempts:
  assumes "0 \<le> retries"
    and "\<forall>v. retryable_failure (fst (request v))"
  shows "count_event HttpRequest (snd (snd (make_request retries request uniform w)))
           = nat (retries + 1) \<and>
         fst (make_request retries request uniform w)
           = fst (request (after_runs (nat retries) request w)) \<and>
         fst (snd (make_request retries request uniform w))
           = after_runs (nat (retries + 1)) request w \<and>
         (raises_retryable (fst (request (after_runs (nat retries) request w))) \<longrightarrow>
            (\<exists>e. fst (make_request retries request uniform w) = Raise e)) \<and>
         (gateway_failure (fst (request (after_runs (nat retries) request w))) \<longrightarrow>
            (\<exists>response. fst (make_request retries request uniform w) = Return response \<and>
                        resp_status_code response \<in> {502, 503, 504}))"
proof -
  let ?tr = "concat (map (attempt_events retries uniform) [0..<nat retries]) @ [HttpRequest]"
  let ?last = "fst (request (after_runs (nat retries) request w))"
  have eq: "make_request retries request uniform w =
      (?last, after_runs (nat retries + 1) request w, ?tr)"
    by (rule make_request_always_failing [OF assms])
  have n: "nat (retries + 1) = nat retries + 1" using assms(1) by (simp add: nat_add_distrib)
  have cnt: "count_event HttpRequest ?tr = nat retries + 1"
    by (rule make_request_trace(1) [OF assms(1) refl])
  have r: "\<exists>e. ?last = Raise e" if a: "raises_retryable ?last"
    using try_request_raises_retryable [OF a] by auto
  have g: "\<exists>response. ?last = Return response \<and> resp_status_code response \<in> {502, 503, 504}"
    if a: "gateway_failure ?last"
    using try_request_gateway_failure [OF a] by auto
  show ?thesis using eq n cnt r g by simp
qed

theorem make_request_runs_all_attempts_witness:
  "fst (make_request 2 (\<lambda>w::nat. (Raise (TimeoutException ''timed out''), Suc w))
          (\<lambda>a. 1 / 10) 0) = Raise (TimeoutException ''timed out'') \<and>
   fst (snd (make_request 2 (\<lambda>w::nat. (Raise (TimeoutException ''timed out''), Suc w))
          (\<lambda>a. 1 / 10) 0)) = 3 \<and>
   count_event HttpRequest
     (snd (snd (make_request 2 (\<lambda>w::nat. (Raise (TimeoutException ''timed out''), Suc w))
          (\<lambda>a. 1 / 10) 0))) = 3"
  using make_request_runs_all_attempts
    [of 2 "\<lambda>w::nat. (Raise (TimeoutException ''timed out''), Suc w)" "\<lambda>a. 1 / 10" 0]
  by (simp add: retryable_failure_def raises_retryable_def after_runs_def numeral_3_eq_3
        numeral_2_eq_2)

text \<open>
  The claim as the spec states it fails for a dependency that answers 503 every time, a
  failure the wrapper itself treats as retryable: after the third and last attempt no
  error is propagated, the 503 response is returned.
\<close>

theorem make_request_runs_all_attempts_counterexample:
  "fst (make_request 2
          (\<lambda>w::nat. (Return \<lparr>resp_status_code = 503, resp_body = ''unavailable''\<rparr>, Suc w))
          (\<lambda>a. 1 / 10) 0)
     = Return \<lparr>resp_status_code = 503, resp_body = ''unavailable''\<rparr> \<and>
   count_event HttpRequest
     (snd (snd (make_request 2
          (\<lambda>w::nat. (Return \<lparr>resp_status_code = 503, resp_body = ''unavailable''\<rparr>, Suc w))
          (\<lambda>a. 1 / 10) 0))) = 3"
  by (simp add: make_request_def py_range_def upt_conv_Cons try_request_def count_event_def)

text \<open>
  C10. A response with status 502, 503 or 504 is turned into an \<^verbatim>\<open>HTTPStatusError\<close>, caught
  and followed by a sleep and the next attempt, exactly when \<open>attempt < retries\<close>. At the
  last attempt (\<open>attempt = retries\<close>) the same response ends the call as its normal
  result. So when the earlier attempts were all retried and the last run of the request
  answers with such a status, \<^verbatim>\<open>_make_request\<close> returns that response.
\<close>

theorem gateway_response_on_last_attempt:
  assumes "resp_status_code response \<in> {502, 503, 504}"
  shows "try_request retries attempt (Return response) =
           (if int attempt < retries
            then Caught (HTTPStatusError (''HTTP '' @ str_int (resp_status_code response)) response)
            else Done (Return response)) \<and>
         (request w = (Return response, w1) \<and> int attempt < retries \<longrightarrow>
            request_attempts retries request uniform (attempt # rest) last_exception w =
              (case request_attempts retries request uniform rest
                      (Some (HTTPStatusError (''HTTP '' @ str_int (resp_status_code response))
                               response)) w1 of
                 (r, w2, tr) \<Rightarrow>
                   (r, w2, [HttpRequest, Sleep (wait_time attempt (uniform attempt))] @ tr))) \<and>
         (request w = (Return response, w1) \<and> int attempt = retries \<longrightarrow>
            request_attempts retries request uniform (attempt # rest) last_exception w =
              (Return response, w1, [HttpRequest])) \<and>
         (0 \<le> retries \<and>
          (\<forall>a \<in> set [0..<nat retries]. \<forall>v. \<exists>e. try_request retries a (fst (request v)) = Caught e) \<and>
          fst (request (after_runs (nat retries) request w0)) = Return response \<longrightarrow>
            fst (make_request retries request uniform w0) = Return response)"
proof -
  have t: "try_request retries attempt (Return response) =
           (if int attempt < retries
            then Caught (HTTPStatusError (''HTTP '' @ str_int (resp_status_code response)) response)
            else Done (Return response))" for attempt
    using assms by (simp add: try_request_def)
  have whole: "fst (make_request retries request uniform w0) = Return response"
    if r0: "0 \<le> retries"
      and earlier: "\<forall>a \<in> set [0..<nat retries]. \<forall>v. \<exists>e. try_request retries a (fst (request v)) = Caught e"
      and final: "fst (request (after_runs (nat retries) request w0)) = Return response"
  proof -
    obtain le where le:
      "make_request retries request uniform w0 =
         (case request_attempts retries request uniform [nat retries] le
                 (after_runs (nat retries) request w0) of
            (r, w2, tr) \<Rightarrow>
              (r, w2, concat (map (attempt_events retries uniform) [0..<nat retries]) @ tr))"
      using make_request_last_attempt [OF r0 earlier] by blast
    obtain v1 where "request (after_runs (nat retries) request w0) = (Return response, v1)"
      using final by (cases "request (after_runs (nat retries) request w0)") simp
    then have "request_attempts retries request uniform [nat retries] le
                 (after_runs (nat retries) request w0) = (Return response, v1, [HttpRequest])"
      using t [of "nat retries"] r0 by simp
    then show ?thesis using le by simp
  qed
  show ?thesis using t whole by simp
qed

theorem gateway_response_on_last_attempt_witness:
  "try_request 3 3 (Return \<lparr>resp_status_code = 504, resp_body = ''gateway timeout''\<rparr>)
     = Done (Return \<lparr>resp_status_code = 504, resp_body = ''gateway timeout''\<rparr>) \<and>
   try_request 3 2 (Return \<lparr>resp_status_code = 504, resp_body = ''gateway timeout''\<rparr>)
     = Caught (HTTPStatusError ''HTTP 504''
                 \<lparr>resp_status_code = 504, resp_body = ''gateway timeout''\<rparr>)"
  using gateway_response_on_last_attempt
    [of "\<lparr>resp_status_code = 504, resp_body = ''gateway timeout''\<rparr>" 3 3, THEN conjunct1]
    gateway_response_on_last_attempt
    [of "\<lparr>resp_status_code = 504, resp_body = ''gateway timeout''\<rparr>" 3 2, THEN conjunct1]
  by (simp add: str_int_def)

section \<open>Backoff delays: the claims\<close>












section \<open>ServiceDiscovery: the claims\<close>

lemma refresh_when_registry_fails:
  assumes "registry_fails self get_parameters_by_path w"
  shows "fst (refresh_service_cache self get_parameters_by_path w) = self"
  using assms
  by (auto simp: registry_fails_def refresh_service_cache_def split: prod.splits result.splits)

lemma refresh_events:
  "snd (snd (refresh_service_cache self get_parameters_by_path w)) =
     (if ssm_available self then [GetParametersByPath] else [])"
  by (auto simp: refresh_service_cache_def split: prod.splits result.splits)

text \<open>
  The registry fetches of one call: none when the cache is valid and holds a non-empty
  \<^verbatim>\<open>full_url\<close> for the service, or when SSM is unavailable; one otherwise.
\<close>

lemma get_service_endpoint_events:
  "snd (snd (snd (get_service_endpoint self get_parameters_by_path service_name w))) =
     (if is_cache_valid self w \<and> cached_endpoint (service_cache self) service_name \<noteq> None then []
      else if ssm_available self then [GetParametersByPath] else [])"
proof (cases "is_cache_valid self w \<and> cached_endpoint (service_cache self) service_name \<noteq> None")
  case True
  then show ?thesis by (auto simp: get_service_endpoint_def)
next
  case False
  obtain self1 w1 tr where r: "refresh_service_cache self get_parameters_by_path w = (self1, w1, tr)"
    by (cases "refresh_service_cache self get_parameters_by_path w")
  then have tr: "tr = (if ssm_available self then [GetParametersByPath] else [])"
    using refresh_events [of self get_parameters_by_path w] by simp
  have "(if is_cache_valid self w then cached_endpoint (service_cache self) service_name else None)
          = None"
    using False by auto
  then have "snd (snd (snd (get_service_endpoint self get_parameters_by_path service_name w))) = tr"
    using r by (simp add: get_service_endpoint_def split: option.splits)
  then show ?thesis using False tr by simp
qed

text \<open>
  C6. While the registry is down (SSM unavailable, or the fetch raises), resolving a
  service that is cached with a non-empty \<^verbatim>\<open>full_url\<close> returns that cached URL, expired or
  not; resolving a service that is not so cached, but has a non-empty fallback URL in the
  environment, returns the fallback. The cache is left as it was. The call returns in
  every case: no exception reaches the caller.
\<close>

theorem stale_or_fallback_when_registry_fails:
  assumes "registry_fails self get_parameters_by_path w"
  shows "(cached_endpoint (service_cache self) service_name = Some url \<longrightarrow>
            fst (get_service_endpoint self get_parameters_by_path service_name w) = Some url) \<and>
         (cached_endpoint (service_cache self) service_name = None \<and> url \<noteq> [] \<and>
          get_fallback_endpoint
            (fst (snd (snd (get_service_endpoint self get_parameters_by_path service_name w))))
            service_name = Some url \<longrightarrow>
            fst (get_service_endpoint self get_parameters_by_path service_name w) = Some url) \<and>
         fst (snd (get_service_endpoint self get_parameters_by_path service_name w)) = self"
proof -
  obtain self1 w1 tr where r: "refresh_service_cache self get_parameters_by_path w = (self1, w1, tr)"
    by (cases "refresh_service_cache self get_parameters_by_path w")
  have same: "self1 = self"
    using refresh_when_registry_fails [OF assms] r by simp
  have cached: "fst (get_service_endpoint self get_parameters_by_path service_name w) = Some url"
    if "cached_endpoint (service_cache self) service_name = Some url"
    using that r same by (simp add: get_service_endpoint_def)
  have fallback: "fst (get_service_endpoint self get_parameters_by_path service_name w) = Some url"
    if none: "cached_endpoint (service_cache self) service_name = None" and ne: "url \<noteq> []"
      and fb: "get_fallback_endpoint
                 (fst (snd (snd (get_service_endpoint self get_parameters_by_path service_name w))))
                 service_name = Some url"
  proof -
    have w1: "fst (snd (snd (get_service_endpoint self get_parameters_by_path service_name w))) = w1"
      using none r same by (simp add: get_service_endpoint_def split: option.splits)
    then have "get_fallback_endpoint w1 service_name = Some url" using fb by simp
    then show ?thesis
      using none ne r same by (simp add: get_service_endpoint_def)
  qed
  have kept: "fst (snd (get_service_endpoint self get_parameters_by_path service_name w)) = self"
    using r same by (simp add: get_service_endpoint_def split: option.splits)
  show ?thesis using cached fallback kept by blast
qed

theorem stale_or_fallback_when_registry_fails_witness:
  "fst (get_service_endpoint
          ((ServiceDiscovery_init ''shopsmart'' ''production'' True)
             \<lparr>service_cache := [(''auth'', [(''full_url'', ''http://auth.internal:8002'')])],
              last_cache_update := 100\<rparr>)
          (\<lambda>w. (Raise (SsmClientError ''ThrottlingException''), w))
          ''auth''
          \<lparr>loop_time = 1000, environ = (\<lambda>var. None)\<rparr>) = Some ''http://auth.internal:8002'' \<and>
   fst (get_service_endpoint
          (ServiceDiscovery_init ''shopsmart'' ''production'' False)
          (\<lambda>w. (Return [], w))
          ''auth''
          \<lparr>loop_time = 1000, environ = [''AUTH_SERVICE_URL'' \<mapsto> ''http://x'']\<rparr>) = Some ''http://x''"
  using stale_or_fallback_when_registry_fails
    [of "(ServiceDiscovery_init ''shopsmart'' ''production'' True)
           \<lparr>service_cache := [(''auth'', [(''full_url'', ''http://auth.internal:8002'')])],
            last_cache_update := 100\<rparr>"
        "\<lambda>w. (Raise (SsmClientError ''ThrottlingException''), w)"
        "\<lparr>loop_time = 1000, environ = (\<lambda>var. None)\<rparr>" "''auth''" "''http://auth.internal:8002''"]
    stale_or_fallback_when_registry_fails
    [of "ServiceDiscovery_init ''shopsmart'' ''production'' False"
        "\<lambda>w. (Return [], w)"
        "\<lparr>loop_time = 1000, environ = [''AUTH_SERVICE_URL'' \<mapsto> ''http://x'']\<rparr>"
        "''auth''" "''http://x''"]
  by (simp add: registry_fails_def ServiceDiscovery_init_def cached_endpoint_def
        get_service_endpoint_def is_cache_valid_def refresh_service_cache_def
        get_fallback_endpoint_def env_var_map_def)

end
